theory Spec2Isabelle
  imports Complex_Main "HOL-Library.Sublist"
begin

section \<open>Guardian: decision pipeline, shell preprocessing and audit chain\<close>

text \<open>
  A shallow embedding of the TypeScript sources \<^verbatim>\<open>types.ts\<close>, \<^verbatim>\<open>blocklist.ts\<close>,
  \<^verbatim>\<open>budget.ts\<close>, \<^verbatim>\<open>audit.ts\<close>, \<^verbatim>\<open>kill.ts\<close> and \<^verbatim>\<open>validator.ts\<close>.
  Strings are lists of characters; a JavaScript string is read as its sequence of code
  units, taken below 256, and every character the code compares against is ASCII.  Module-scoped variables
  (\<^verbatim>\<open>actionCount\<close>, \<^verbatim>\<open>compiledPatterns\<close>, \<^verbatim>\<open>lastHash\<close>, \<^verbatim>\<open>sequenceNumber\<close>) and
  the audit files are fields of an explicit state that every effectful function takes
  and returns.  Library functions of the Node runtime (regular expressions, URL parsing,
  SHA-256, number formatting) are fields of a record \<open>Runtime\<close> passed as a parameter.
\<close>

subsection \<open>Characters and small string helpers\<close>

abbreviation squote :: char where "squote \<equiv> CHR 0x27"
abbreviation dquote :: char where "dquote \<equiv> CHR 0x22"
abbreviation backslash :: char where "backslash \<equiv> CHR 0x5C"
abbreviation backtick :: char where "backtick \<equiv> CHR 0x60"

text \<open>The white space of \<^verbatim>\<open>String.prototype.trim\<close> and of \<^verbatim>\<open>\s\<close>, among the characters
  below code 256: space, tab, line feed, vertical tab, form feed, carriage return and the
  no-break space.\<close>

definition is_space :: "char \<Rightarrow> bool" where
  "is_space c = (c = CHR '' '' \<or> c = CHR 0x09 \<or> c = CHR 0x0A \<or> c = CHR 0x0B \<or> c = CHR 0x0C
                 \<or> c = CHR 0x0D \<or> c = CHR 0xA0)"

definition trim :: "string \<Rightarrow> string" where
  "trim s = rev (dropWhile is_space (rev (dropWhile is_space s)))"

definition digit_char :: "nat \<Rightarrow> char" where
  "digit_char d = char_of (of_char (CHR ''0'') + d)"

text \<open>Decimal rendering of a non-negative integer, as \<^verbatim>\<open>String(n)\<close> prints it.\<close>

fun show_nat :: "nat \<Rightarrow> string" where
  "show_nat n = (if n < 10 then [digit_char n] else show_nat (n div 10) @ [digit_char (n mod 10)])"

declare show_nat.simps [simp del]

definition show_int :: "int \<Rightarrow> string" where
  "show_int i = (if i < 0 then CHR ''-'' # show_nat (nat (- i)) else show_nat (nat i))"

text \<open>\<^verbatim>\<open>arr.join(sep)\<close>.\<close>

fun join :: "string \<Rightarrow> string list \<Rightarrow> string" where
  "join sep [] = []"
| "join sep [x] = x"
| "join sep (x # y # ys) = x @ sep @ join sep (y # ys)"

subsection \<open>types.ts\<close>

datatype Severity = Critical | High | Medium | Low
datatype FileOperation = OpRead | OpWrite | OpDelete | OpGitAdd
datatype Mode = Enforce | Audit | Off
datatype Source = SrcAllowlist | SrcScope | SrcBlocklist | SrcBudget
datatype Integrity = Sha256Chain | IntegrityNone
datatype Rotation = Daily | RotationNone
datatype BreachAction = Kill | Deny | Warn

text \<open>A JSON value, as \<^verbatim>\<open>JSON.parse\<close> delivers the tool input.\<close>

datatype json = JNull | JBool bool | JNum rat | JStr string
  | JArr "json list" | JObj "(string \<times> json) list"

text \<open>
  \<open>NetworkPattern\<close> has the three fields of \<open>Pattern\<close>; \<open>CommandPattern\<close> and
  \<open>SecretPattern\<close> add the optional \<open>flags\<close>; \<open>FilePattern\<close> adds \<open>operations\<close>.
\<close>

record Pattern =
  pattern :: string
  severity :: Severity
  reason :: string

record CommandPattern = Pattern +
  flags :: "string option"

record FilePattern = Pattern +
  operations :: "FileOperation list"

type_synonym SecretPattern = CommandPattern
type_synonym NetworkPattern = Pattern

record BlocklistConfig =
  commands :: "CommandPattern list"
  file_patterns :: "FilePattern list"
  secret_patterns :: "SecretPattern list"
  network :: "NetworkPattern list"

record AllowlistConfig =
  commands :: "string list"
  paths :: "string list"
  domains :: "string list"

record ScopeConfig =
  allowed_paths :: "string list"
  denied_paths :: "string list"
  allow_outside_cwd :: bool

record BudgetConfig =
  enabled :: bool
  max_actions_per_session :: int
  session_limit_usd :: "rat option"
  cost_file :: string
  action_on_breach :: BreachAction

record AuditConfig =
  enabled :: bool
  path :: string
  include_tool_input :: bool
  include_tool_output :: bool
  integrity :: Integrity
  max_file_size_mb :: rat
  rotation :: Rotation

record KillSwitchConfig =
  enabled :: bool
  on_blocklist_critical :: bool
  on_budget_breach :: bool
  on_integrity_violation :: bool
  exit_code :: nat

record Policy =
  version :: nat
  mode :: Mode
  blocklist :: BlocklistConfig
  allowlist :: AllowlistConfig
  scope :: ScopeConfig
  budget :: BudgetConfig
  audit :: AuditConfig
  kill_switch :: KillSwitchConfig

record HookInput =
  tool_name :: string
  tool_input :: "(string \<times> json) list"
  session_id :: "string option"
  cwd :: "string option"

record BudgetSnapshot =
  remaining_usd :: "rat option"
  action_count :: nat

text \<open>
  \<open>AuditEntryWithoutHash\<close> is \<^verbatim>\<open>Omit<AuditEntry, "hash">\<close>; its fields are in the order of
  the object literal of \<^verbatim>\<open>writeAuditEntry\<close>.  \<open>AuditEntry\<close> extends it by \<open>hash\<close>.
\<close>

record AuditEntryWithoutHash =
  v :: nat
  ts :: string
  sid :: string
  seq :: nat
  tool :: string
  input :: "(string \<times> json) list option"
  allowed :: bool
  reason :: "string option"
  severity :: "Severity option"
  policy_match :: "string option"
  budget :: "BudgetSnapshot option"
  cwd :: string

record AuditEntry = AuditEntryWithoutHash +
  hash :: string

record BudgetState =
  action_count :: nat
  session_cost_usd :: "rat option"
  exceeded :: bool
  breach_reason :: "string option"

text \<open>The interface \<^verbatim>\<open>CompiledPattern\<close> of \<^verbatim>\<open>blocklist.ts\<close>; \<open>regex\<close> is the compiled
  expression as the predicate \<^verbatim>\<open>text => { regex.lastIndex = 0; return regex.test(text) }\<close>.\<close>

record CompiledPattern =
  regex :: "string \<Rightarrow> bool"
  severity :: Severity
  reason :: string
  source :: string

text \<open>The map of \<^verbatim>\<open>compilePatterns\<close>, one field for each of its four keys.\<close>

record CompiledPatterns =
  commands :: "CompiledPattern list"
  file_patterns :: "CompiledPattern list"
  secret_patterns :: "CompiledPattern list"
  network :: "CompiledPattern list"

text \<open>The result types of \<^verbatim>\<open>shouldKill\<close> and \<^verbatim>\<open>verifyAuditChain\<close>.\<close>

record KillCheck =
  kill :: bool
  reason :: string

record VerifyResult =
  valid :: bool
  entries :: nat
  brokenAt :: "nat option"

record ValidationResult =
  allowed :: bool
  reason :: "string option"
  severity :: "Severity option"
  pattern :: "string option"
  source :: "Source option"

subsection \<open>The Node runtime\<close>

text \<open>
  Library functions the sources call.  \<open>RegExp_test p f t\<close> is
  \<^verbatim>\<open>new RegExp(p, f).test(t)\<close> from \<^verbatim>\<open>lastIndex = 0\<close>; \<open>URL_hostname u\<close> is
  \<^verbatim>\<open>new URL(u).hostname\<close>, \<open>None\<close> when the constructor throws; \<open>sha256_hex s\<close> is
  \<^verbatim>\<open>crypto.createHash("sha256").update(s).digest("hex")\<close>; \<open>process_cwd\<close> is
  \<^verbatim>\<open>process.cwd()\<close>, an absolute path; \<open>Number_toString\<close> and \<open>Number_toFixed2\<close> print a
  number as \<^verbatim>\<open>String(x)\<close> and \<^verbatim>\<open>x.toFixed(2)\<close> do.  Amounts in USD are rationals here;
  the rounding of the one subtraction the sources perform on them is not modelled.
\<close>

record Runtime =
  RegExp_test :: "string \<Rightarrow> string \<Rightarrow> string \<Rightarrow> bool"
  URL_hostname :: "string \<Rightarrow> string option"
  sha256_hex :: "string \<Rightarrow> string"
  process_cwd :: string
  Number_toString :: "rat \<Rightarrow> string"
  Number_toFixed2 :: "rat \<Rightarrow> string"

subsubsection \<open>\<^verbatim>\<open>path.resolve\<close> (POSIX)\<close>

fun split_on :: "char \<Rightarrow> string \<Rightarrow> string list" where
  "split_on c [] = [[]]"
| "split_on c (x # xs) =
     (if x = c then [] # split_on c xs
      else (case split_on c xs of [] \<Rightarrow> [[x]] | y # ys \<Rightarrow> (x # y) # ys))"

definition normalize_segments :: "string list \<Rightarrow> string list" where
  "normalize_segments segs =
     foldl (\<lambda>acc seg. if seg = [] \<or> seg = ''.'' then acc
                       else if seg = ''..'' then butlast acc
                       else acc @ [seg]) [] segs"

definition is_absolute :: "string \<Rightarrow> bool" where
  "is_absolute p = (case p of [] \<Rightarrow> False | c # _ \<Rightarrow> c = CHR ''/'')"

text \<open>
  \<^verbatim>\<open>path.resolve(cwd, p)\<close> (the variable \<open>cwd'\<close> stands for the source's \<^verbatim>\<open>cwd\<close>, and
  \<open>input'\<close> for \<^verbatim>\<open>input\<close>, throughout, the plain names being record fields): the arguments are taken from the right until one is absolute,
  \<^verbatim>\<open>process.cwd()\<close> being the last resort; the joined path is normalised (empty and
  \<^verbatim>\<open>.\<close> segments dropped, \<^verbatim>\<open>..\<close> removing the segment before it, nothing above the
  root) and has no trailing slash.
\<close>

definition path_resolve :: "Runtime \<Rightarrow> string \<Rightarrow> string \<Rightarrow> string" where
  "path_resolve rt cwd' p =
     (let joined = (if is_absolute p then p
                    else if is_absolute cwd' then cwd' @ ''/'' @ p
                    else process_cwd rt @ ''/'' @ cwd' @ ''/'' @ p)
      in CHR ''/'' # join ''/'' (normalize_segments (split_on (CHR ''/'') joined)))"

subsubsection \<open>\<^verbatim>\<open>String.prototype.replace\<close> with a string pattern\<close>

text \<open>The first occurrence of \<open>pat\<close> in the text, as the text before and after it.\<close>

fun find_sub :: "string \<Rightarrow> string \<Rightarrow> (string \<times> string) option" where
  "find_sub pat [] = (if pat = [] then Some ([], []) else None)"
| "find_sub pat (c # cs) =
     (if prefix pat (c # cs) then Some ([], drop (length pat) (c # cs))
      else map_option (\<lambda>(b, a). (c # b, a)) (find_sub pat cs))"

text \<open>
  \<^verbatim>\<open>GetSubstitution\<close> for a match without capture groups: \<^verbatim>\<open>$$\<close> is a dollar sign,
  \<^verbatim>\<open>$&\<close> the matched text, \<^verbatim>\<open>$`\<close> the text before the match, \<^verbatim>\<open>$'\<close> the text after
  it; any other dollar sign stands for itself.
\<close>

fun get_substitution :: "string \<Rightarrow> string \<Rightarrow> string \<Rightarrow> string \<Rightarrow> string" where
  "get_substitution m b a [] = []"
| "get_substitution m b a [c] = [c]"
| "get_substitution m b a (c # d # r) =
     (if c = CHR ''$'' \<and> d = CHR ''$'' then CHR ''$'' # get_substitution m b a r
      else if c = CHR ''$'' \<and> d = CHR ''&'' then m @ get_substitution m b a r
      else if c = CHR ''$'' \<and> d = backtick then b @ get_substitution m b a r
      else if c = CHR ''$'' \<and> d = squote then a @ get_substitution m b a r
      else c # get_substitution m b a (d # r))"

definition js_replace :: "string \<Rightarrow> string \<Rightarrow> string \<Rightarrow> string" where
  "js_replace s pat replacement =
     (case find_sub pat s of
        None \<Rightarrow> s
      | Some (b, a) \<Rightarrow> b @ get_substitution pat b a replacement @ a)"

subsubsection \<open>\<^verbatim>\<open>JSON.stringify\<close>\<close>

definition hex_digit :: "nat \<Rightarrow> char" where
  "hex_digit d = (if d < 10 then digit_char d else char_of (of_char (CHR ''a'') + (d - 10)))"

definition JSON_escape :: "char \<Rightarrow> string" where
  "JSON_escape c =
     (if c = dquote then [backslash, dquote]
      else if c = backslash then [backslash, backslash]
      else if c = CHR 0x08 then [backslash, CHR ''b'']
      else if c = CHR 0x0C then [backslash, CHR ''f'']
      else if c = CHR 0x0A then [backslash, CHR ''n'']
      else if c = CHR 0x0D then [backslash, CHR ''r'']
      else if c = CHR 0x09 then [backslash, CHR ''t'']
      else if (of_char c :: nat) < 32
        then [backslash, CHR ''u'', CHR ''0'', CHR ''0'',
              hex_digit (of_char c div 16), hex_digit (of_char c mod 16)]
      else [c])"

definition JSON_quote :: "string \<Rightarrow> string" where
  "JSON_quote s = dquote # concat (map JSON_escape s) @ [dquote]"

text \<open>Without a \<^verbatim>\<open>space\<close> argument the serialization has no white space between tokens,
  and the members of an object come in the order of its keys.\<close>

primrec JSON_stringify :: "Runtime \<Rightarrow> json \<Rightarrow> string" where
  "JSON_stringify rt JNull = ''null''"
| "JSON_stringify rt (JBool b) = (if b then ''true'' else ''false'')"
| "JSON_stringify rt (JNum q) = Number_toString rt q"
| "JSON_stringify rt (JStr s) = JSON_quote s"
| "JSON_stringify rt (JArr xs) = ''['' @ join '','' (map (JSON_stringify rt) xs) @ '']''"
| "JSON_stringify rt (JObj kvs) =
     ''{'' @ join '','' (map (\<lambda>kv. JSON_quote (fst kv) @ '':'' @ snd kv)
                          (map (map_prod id (JSON_stringify rt)) kvs)) @ ''}''"

definition severity_name :: "Severity \<Rightarrow> string" where
  "severity_name s = (case s of Critical \<Rightarrow> ''critical'' | High \<Rightarrow> ''high''
                                | Medium \<Rightarrow> ''medium'' | Low \<Rightarrow> ''low'')"

definition JSON_nullable :: "('a \<Rightarrow> string) \<Rightarrow> 'a option \<Rightarrow> string" where
  "JSON_nullable f x = (case x of None \<Rightarrow> ''null'' | Some y \<Rightarrow> f y)"

definition JSON_stringify_budget :: "Runtime \<Rightarrow> BudgetSnapshot \<Rightarrow> string" where
  \<open>JSON_stringify_budget rt b =
     ''{"remaining_usd":'' @ JSON_nullable (Number_toString rt) (remaining_usd b)
     @ '',"action_count":'' @ show_nat (BudgetSnapshot.action_count b) @ ''}''\<close>

text \<open>\<^verbatim>\<open>JSON.stringify(entryWithoutHash)\<close>: the twelve keys in the order of the object
  literal, no white space.\<close>

definition JSON_stringify_entry :: "Runtime \<Rightarrow> AuditEntryWithoutHash \<Rightarrow> string" where
  \<open>JSON_stringify_entry rt e =
     ''{"v":'' @ show_nat (v e)
     @ '',"ts":'' @ JSON_quote (ts e)
     @ '',"sid":'' @ JSON_quote (sid e)
     @ '',"seq":'' @ show_nat (seq e)
     @ '',"tool":'' @ JSON_quote (tool e)
     @ '',"input":'' @ JSON_nullable (\<lambda>obj. JSON_stringify rt (JObj obj)) (input e)
     @ '',"allowed":'' @ (if AuditEntryWithoutHash.allowed e then ''true'' else ''false'')
     @ '',"reason":'' @ JSON_nullable JSON_quote (AuditEntryWithoutHash.reason e)
     @ '',"severity":'' @ JSON_nullable (\<lambda>s. JSON_quote (severity_name s)) (AuditEntryWithoutHash.severity e)
     @ '',"policy_match":'' @ JSON_nullable JSON_quote (policy_match e)
     @ '',"budget":'' @ JSON_nullable (JSON_stringify_budget rt) (budget e)
     @ '',"cwd":'' @ JSON_quote (AuditEntryWithoutHash.cwd e) @ ''}''\<close>

subsection \<open>Process state and the world outside\<close>

text \<open>
  A line of an audit file as \<^verbatim>\<open>JSON.parse\<close> reads it: an entry, or text that does not
  parse.  Files are held as their lists of lines (the content trimmed and split at line
  feeds); that \<^verbatim>\<open>JSON.parse\<close> gives back the entry \<^verbatim>\<open>JSON.stringify\<close> wrote is built
  into this representation.
\<close>

datatype line = Entry AuditEntry | Unparseable

text \<open>
  The module-scoped variables of \<^verbatim>\<open>budget.ts\<close>, \<^verbatim>\<open>blocklist.ts\<close> and \<^verbatim>\<open>audit.ts\<close>, and
  the audit files by path (\<open>None\<close>: no such file).
\<close>

record State =
  actionCount :: nat
  compiledPatterns :: "CompiledPatterns option"
  lastHash :: string
  sequenceNumber :: nat
  files :: "string \<Rightarrow> line list option"

text \<open>The state of a process that has just started, over a given store of files.\<close>

definition process_start :: "(string \<Rightarrow> line list option) \<Rightarrow> State" where
  "process_start fs = \<lparr> actionCount = 0, compiledPatterns = None, lastHash = [],
                         sequenceNumber = 0, files = fs \<rparr>"

text \<open>
  What one call of \<^verbatim>\<open>writeAuditEntry\<close> reads from the clock and from \<^verbatim>\<open>fs.statSync\<close>:
  \<open>now\<close> is \<^verbatim>\<open>new Date().toISOString()\<close>, \<open>today\<close> its date part, \<open>file_size_mb\<close> is
  \<^verbatim>\<open>stat.size / (1024 * 1024)\<close> and \<open>file_date\<close> the date part of \<^verbatim>\<open>stat.mtime\<close>.
\<close>

record AuditIO =
  now :: string
  today :: string
  file_size_mb :: rat
  file_date :: string

text \<open>
  What one call of \<^verbatim>\<open>validate\<close> reads: \<open>cost_read\<close> is the cost file as
  \<^verbatim>\<open>checkBudget\<close> finds it, \<open>Some c\<close> when the file exists and parses with
  \<^verbatim>\<open>total_cost_usd = c\<close>, \<open>None\<close> when it is missing, unreadable or malformed.
  \<^verbatim>\<open>validateAndAudit\<close> calls \<^verbatim>\<open>checkBudget\<close> and \<^verbatim>\<open>writeAuditEntry\<close> once more, with
  readings of their own.
\<close>

record ValidateIO =
  cost_read :: "rat option"
  audit_io :: AuditIO

record HookIO =
  validate_io :: ValidateIO
  cost_read2 :: "rat option"
  audit_io2 :: AuditIO

text \<open>A call returns, or ends the process through \<^verbatim>\<open>process.exit(code)\<close> after writing a
  line to standard error.\<close>

datatype 'a Outcome = Return 'a | Exit nat string

text \<open>
  \<^verbatim>\<open>(toolInput.key as string) ?? ""\<close>.  The cast declares the value a string; an absent
  key and \<^verbatim>\<open>null\<close> give the empty string.  A value of another JSON type is outside the
  declared type and is read as absent.
\<close>

definition string_field :: "(string \<times> json) list \<Rightarrow> string \<Rightarrow> string option" where
  "string_field obj key = (case map_of obj key of Some (JStr s) \<Rightarrow> Some s | _ \<Rightarrow> None)"

definition string_or_empty :: "(string \<times> json) list \<Rightarrow> string \<Rightarrow> string" where
  "string_or_empty obj key = (case string_field obj key of Some s \<Rightarrow> s | None \<Rightarrow> [])"

subsection \<open>blocklist.ts\<close>

definition compilePatterns :: "Runtime \<Rightarrow> Policy \<Rightarrow> CompiledPatterns" where
  "compilePatterns rt policy =
     \<lparr> CompiledPatterns.commands =
         map (\<lambda>p. \<lparr> regex = RegExp_test rt (Pattern.pattern p) (case flags p of None \<Rightarrow> [] | Some f \<Rightarrow> f),
                    CompiledPattern.severity = Pattern.severity p,
                    CompiledPattern.reason = Pattern.reason p,
                    CompiledPattern.source = Pattern.pattern p \<rparr>)
             (BlocklistConfig.commands (blocklist policy)),
       CompiledPatterns.file_patterns =
         map (\<lambda>p. \<lparr> regex = RegExp_test rt (Pattern.pattern p) [],
                    CompiledPattern.severity = Pattern.severity p,
                    CompiledPattern.reason = Pattern.reason p,
                    CompiledPattern.source = Pattern.pattern p \<rparr>)
             (BlocklistConfig.file_patterns (blocklist policy)),
       CompiledPatterns.secret_patterns =
         map (\<lambda>p. \<lparr> regex = RegExp_test rt (Pattern.pattern p) (case flags p of None \<Rightarrow> [] | Some f \<Rightarrow> f),
                    CompiledPattern.severity = Pattern.severity p,
                    CompiledPattern.reason = Pattern.reason p,
                    CompiledPattern.source = Pattern.pattern p \<rparr>)
             (BlocklistConfig.secret_patterns (blocklist policy)),
       CompiledPatterns.network =
         map (\<lambda>p. \<lparr> regex = RegExp_test rt (Pattern.pattern p) [],
                    CompiledPattern.severity = Pattern.severity p,
                    CompiledPattern.reason = Pattern.reason p,
                    CompiledPattern.source = Pattern.pattern p \<rparr>)
             (BlocklistConfig.network (blocklist policy)) \<rparr>"

text \<open>The cache is filled at the first call and never compared with the policy again.\<close>

definition getPatterns :: "Runtime \<Rightarrow> Policy \<Rightarrow> State \<Rightarrow> CompiledPatterns \<times> State" where
  "getPatterns rt policy st =
     (case compiledPatterns st of
        None \<Rightarrow> (let c = compilePatterns rt policy in (c, st\<lparr>compiledPatterns := Some c\<rparr>))
      | Some c \<Rightarrow> (c, st))"

text \<open>
  \<^verbatim>\<open>splitShellCommand\<close>.  The loop runs over the characters; the list argument is the
  command from index \<open>i\<close> on, \<open>next\<close> is \<^verbatim>\<open>command[i + 1]\<close>, and the two branches that
  do \<^verbatim>\<open>i++\<close> drop the character after the current one.  \<^verbatim>\<open>Math.max(0, depth - 1)\<close> is
  the subtraction of natural numbers.
\<close>

fun split_loop :: "string \<Rightarrow> string \<Rightarrow> nat \<Rightarrow> bool \<Rightarrow> bool \<Rightarrow> string list \<Rightarrow> string list \<times> string" where
  "split_loop [] current depth inSingle inDouble segments = (segments, current)"
| "split_loop (ch # rest) current depth inSingle inDouble segments =
    (let next = (case rest of [] \<Rightarrow> None | n # _ \<Rightarrow> Some n) in
     if ch = squote \<and> \<not> inDouble
       then split_loop rest (current @ [ch]) depth (\<not> inSingle) inDouble segments
     else if ch = dquote \<and> \<not> inSingle
       then split_loop rest (current @ [ch]) depth inSingle (\<not> inDouble) segments
     else if inSingle \<or> inDouble
       then split_loop rest (current @ [ch]) depth inSingle inDouble segments
     else if ch = CHR ''('' \<or> (ch = CHR ''$'' \<and> next = Some (CHR ''(''))
       then split_loop rest (current @ [ch]) (depth + 1) inSingle inDouble segments
     else if ch = CHR '')''
       then split_loop rest (current @ [ch]) (depth - 1) inSingle inDouble segments
     else if depth > 0
       then split_loop rest (current @ [ch]) depth inSingle inDouble segments
     else if ch = CHR ''&'' \<and> next = Some (CHR ''&'')
       then split_loop (tl rest) [] depth inSingle inDouble (segments @ [trim current])
     else if ch = CHR ''|'' \<and> next = Some (CHR ''|'')
       then split_loop (tl rest) [] depth inSingle inDouble (segments @ [trim current])
     else if ch = CHR '';''
       then split_loop rest [] depth inSingle inDouble (segments @ [trim current])
     else if ch = CHR ''|''
       then split_loop rest [] depth inSingle inDouble (segments @ [trim current])
     else split_loop rest (current @ [ch]) depth inSingle inDouble segments)"

definition splitShellCommand :: "string \<Rightarrow> string list" where
  "splitShellCommand command =
     (case split_loop command [] 0 False False [] of
        (segments, current) \<Rightarrow>
          filter (\<lambda>s. s \<noteq> [])
            (if trim current \<noteq> [] then segments @ [trim current] else segments))"

text \<open>
  The first loop of \<^verbatim>\<open>extractSubcommands\<close>.  It runs while \<^verbatim>\<open>i < command.length - 1\<close>,
  that is, while at least two characters are left from index \<open>i\<close> on; the last character
  of the command is never the current one.  \<open>body\<close> is \<^verbatim>\<open>command.substring(start, i)\<close>,
  \<open>None\<close> when \<^verbatim>\<open>start\<close> is \<open>-1\<close>.
\<close>

fun dollar_loop :: "string \<Rightarrow> nat \<Rightarrow> string option \<Rightarrow> string list \<Rightarrow> string list" where
  "dollar_loop (c # n # rest) depth body subs =
     (if c = CHR ''$'' \<and> n = CHR ''(''
        then dollar_loop rest (depth + 1)
               (if depth = 0 then Some [] else map_option (\<lambda>b. b @ [c, n]) body) subs
      else if c = CHR '')'' \<and> depth > 0
        then (if depth - 1 = 0 \<and> body \<noteq> None
                then dollar_loop (n # rest) (depth - 1) None (subs @ [the body])
                else dollar_loop (n # rest) (depth - 1) (map_option (\<lambda>b. b @ [c]) body) subs)
      else dollar_loop (n # rest) depth (map_option (\<lambda>b. b @ [c]) body) subs)"
| "dollar_loop rest depth body subs = subs"

text \<open>
  The matches of \<^verbatim>\<open>/`([^`]+)`/g\<close>, each without its two backticks: from a backtick, the
  longest run of other characters must be non-empty and followed by a backtick; if not,
  the search goes on behind this backtick.
\<close>

function backtick_matches :: "string \<Rightarrow> string list" where
  "backtick_matches [] = []"
| "backtick_matches (c # cs) =
     (if c \<noteq> backtick then backtick_matches cs
      else (let body = takeWhile (\<lambda>x. x \<noteq> backtick) cs;
                rest = dropWhile (\<lambda>x. x \<noteq> backtick) cs
            in if body \<noteq> [] \<and> rest \<noteq> [] then body # backtick_matches (tl rest)
               else backtick_matches cs))"
  by pat_completeness auto
termination
proof (relation "measure length")
  fix c :: char and cs body rest :: string
  assume "rest = dropWhile (\<lambda>x. x \<noteq> backtick) cs"
  then have "length rest \<le> length cs"
    by (simp add: length_dropWhile_le)
  then have "length (tl rest) \<le> length cs"
    by simp
  then show "(tl rest, c # cs) \<in> measure length" by simp
qed simp_all

definition extractSubcommands :: "string \<Rightarrow> string list" where
  "extractSubcommands command = dollar_loop command 0 None [] @ backtick_matches command"

text \<open>
  \<^verbatim>\<open>stripQuotedStrings\<close>; the list argument is the text from index \<open>i\<close> on, and the
  escape branch, taken when \<^verbatim>\<open>i + 1 < text.length\<close>, drops the escaped character.
\<close>

fun strip_loop :: "string \<Rightarrow> bool \<Rightarrow> bool \<Rightarrow> string \<Rightarrow> string" where
  "strip_loop [] inSingle inDouble result = result"
| "strip_loop (ch # rest) inSingle inDouble result =
    (if ch = backslash \<and> inDouble \<and> rest \<noteq> [] then strip_loop (tl rest) inSingle inDouble result
     else if ch = squote \<and> \<not> inDouble then strip_loop rest (\<not> inSingle) inDouble result
     else if ch = dquote \<and> \<not> inSingle then strip_loop rest inSingle (\<not> inDouble) result
     else if \<not> inSingle \<and> \<not> inDouble then strip_loop rest inSingle inDouble (result @ [ch])
     else strip_loop rest inSingle inDouble result)"

definition stripQuotedStrings :: "string \<Rightarrow> string" where
  "stripQuotedStrings text = strip_loop text False False []"

definition matchPatterns :: "string \<Rightarrow> CompiledPattern list \<Rightarrow> CompiledPattern option" where
  "matchPatterns text patterns = find (\<lambda>p. regex p text) patterns"

text \<open>The result every branch of \<^verbatim>\<open>checkBlocklist\<close> builds from the pattern that matched.\<close>

definition blocked :: "CompiledPattern \<Rightarrow> ValidationResult" where
  "blocked p = \<lparr> allowed = False, reason = Some (CompiledPattern.reason p),
                 severity = Some (CompiledPattern.severity p),
                 pattern = Some (CompiledPattern.source p), source = Some SrcBlocklist \<rparr>"

text \<open>The loops over the segments and over the substitution bodies: the first text, in
  order, that some pattern matches decides.\<close>

fun first_match :: "string list \<Rightarrow> CompiledPattern list \<Rightarrow> CompiledPattern option" where
  "first_match [] patterns = None"
| "first_match (t # texts) patterns =
     (case matchPatterns t patterns of Some p \<Rightarrow> Some p | None \<Rightarrow> first_match texts patterns)"

text \<open>The loop over the file patterns, for the operation \<open>op\<close> of the tool.\<close>

definition file_match :: "FileOperation \<Rightarrow> Policy \<Rightarrow> string \<Rightarrow> CompiledPattern list \<Rightarrow> CompiledPattern option" where
  "file_match op policy filePath filePatterns =
     find (\<lambda>p. regex p filePath \<and>
                (case find (\<lambda>fp. Pattern.pattern fp = CompiledPattern.source p)
                           (BlocklistConfig.file_patterns (blocklist policy)) of
                   None \<Rightarrow> False
                 | Some fp \<Rightarrow> op \<in> set (operations fp)))
          filePatterns"

text \<open>The loop over \<^verbatim>\<open>Object.values(toolInput)\<close> for an MCP tool.\<close>

fun mcp_match :: "json list \<Rightarrow> CompiledPatterns \<Rightarrow> CompiledPattern option" where
  "mcp_match [] patterns = None"
| "mcp_match (JStr s # vs) patterns =
     (case matchPatterns s (CompiledPatterns.commands patterns) of
        Some p \<Rightarrow> Some p
      | None \<Rightarrow>
         (case matchPatterns s (CompiledPatterns.network patterns) of
            Some p \<Rightarrow> Some p
          | None \<Rightarrow>
             (case matchPatterns s (CompiledPatterns.secret_patterns patterns) of
                Some p \<Rightarrow> Some p
              | None \<Rightarrow> mcp_match vs patterns)))"
| "mcp_match (_ # vs) patterns = mcp_match vs patterns"

definition checkBlocklist :: "Runtime \<Rightarrow> HookInput \<Rightarrow> Policy \<Rightarrow> State \<Rightarrow> ValidationResult option \<times> State" where
  "checkBlocklist rt input' policy st =
     (case getPatterns rt policy st of (patterns, st') \<Rightarrow>
      (let tool' = tool_name input'; toolInput = tool_input input' in
       if tool' = ''Bash'' then
         (let command = string_or_empty toolInput ''command'';
              cmdPatterns = CompiledPatterns.commands patterns in
          case matchPatterns (stripQuotedStrings command) cmdPatterns of
            Some fullMatch \<Rightarrow> (Some (blocked fullMatch), st')
          | None \<Rightarrow>
             (case first_match (map stripQuotedStrings (splitShellCommand command)) cmdPatterns of
                Some segMatch \<Rightarrow> (Some (blocked segMatch), st')
              | None \<Rightarrow>
                 (case first_match (extractSubcommands command) cmdPatterns of
                    Some subMatch \<Rightarrow> (Some (blocked subMatch), st')
                  | None \<Rightarrow>
                     (case matchPatterns command (CompiledPatterns.network patterns) of
                        Some netMatch \<Rightarrow> (Some (blocked netMatch), st')
                      | None \<Rightarrow> (None, st')))))
       else if tool' = ''Write'' \<or> tool' = ''Edit'' then
         (case file_match OpWrite policy (string_or_empty toolInput ''file_path'')
                 (CompiledPatterns.file_patterns patterns) of
            Some p \<Rightarrow> (Some (blocked p), st')
          | None \<Rightarrow>
             (let content = (case string_field toolInput ''content'' of
                               Some s \<Rightarrow> s
                             | None \<Rightarrow> string_or_empty toolInput ''new_string'') in
              if content \<noteq> [] then
                (case matchPatterns content (CompiledPatterns.secret_patterns patterns) of
                   Some secretMatch \<Rightarrow> (Some (blocked secretMatch), st')
                 | None \<Rightarrow> (None, st'))
              else (None, st')))
       else if tool' = ''Read'' then
         (case file_match OpRead policy (string_or_empty toolInput ''file_path'')
                 (CompiledPatterns.file_patterns patterns) of
            Some p \<Rightarrow> (Some (blocked p), st')
          | None \<Rightarrow> (None, st'))
       else if tool' = ''WebFetch'' then
         (case matchPatterns (string_or_empty toolInput ''url'') (CompiledPatterns.network patterns) of
            Some netMatch \<Rightarrow> (Some (blocked netMatch), st')
          | None \<Rightarrow> (None, st'))
       else if prefix ''mcp__'' tool' then
         (case mcp_match (map snd toolInput) patterns of
            Some p \<Rightarrow> (Some (blocked p), st')
          | None \<Rightarrow> (None, st'))
       else (None, st')))"

subsection \<open>budget.ts\<close>

definition checkBudget :: "Runtime \<Rightarrow> Policy \<Rightarrow> string \<Rightarrow> rat option \<Rightarrow> State \<Rightarrow> BudgetState \<times> State" where
  "checkBudget rt policy cwd' cost st =
     (let n = actionCount st + 1;
          st' = st\<lparr>actionCount := n\<rparr>;
          b = Policy.budget policy;
          no_breach = \<lparr> BudgetState.action_count = n, session_cost_usd = None,
                        exceeded = False, breach_reason = None \<rparr>
      in
      if \<not> BudgetConfig.enabled b then (no_breach, st')
      else if max_actions_per_session b > 0 \<and> int n > max_actions_per_session b then
        (\<lparr> BudgetState.action_count = n, session_cost_usd = None, exceeded = True,
            breach_reason = Some (''Action limit exceeded: '' @ show_nat n @ ''/''
                                   @ show_int (max_actions_per_session b)) \<rparr>, st')
      else
        (case session_limit_usd b of
           None \<Rightarrow> (no_breach, st')
         | Some limit \<Rightarrow>
            if cost_file b = [] then (no_breach, st')
            else
              (case cost of
                 None \<Rightarrow> (no_breach, st')
               | Some total_cost_usd \<Rightarrow>
                  if total_cost_usd \<ge> limit then
                    (\<lparr> BudgetState.action_count = n, session_cost_usd = Some total_cost_usd,
                        exceeded = True,
                        breach_reason = Some (''Cost limit exceeded: $''
                                               @ Number_toFixed2 rt total_cost_usd
                                               @ ''/$'' @ Number_toFixed2 rt limit) \<rparr>, st')
                  else
                    (\<lparr> BudgetState.action_count = n, session_cost_usd = Some total_cost_usd,
                        exceeded = False, breach_reason = None \<rparr>, st'))))"

definition getActionCount :: "State \<Rightarrow> nat" where
  "getActionCount st = actionCount st"

definition resetActionCount :: "State \<Rightarrow> State" where
  "resetActionCount st = st\<lparr>actionCount := 0\<rparr>"

subsection \<open>audit.ts\<close>

text \<open>\<^verbatim>\<open>{ ...entryWithoutHash, hash }\<close> and \<^verbatim>\<open>const { hash, ...rest } = entry\<close>.\<close>

definition with_hash :: "AuditEntryWithoutHash \<Rightarrow> string \<Rightarrow> AuditEntry" where
  "with_hash e h = AuditEntryWithoutHash.extend e (AuditEntry.fields h)"

definition without_hash :: "AuditEntry \<Rightarrow> AuditEntryWithoutHash" where
  "without_hash e = AuditEntryWithoutHash.truncate e"

definition computeHash :: "Runtime \<Rightarrow> string \<Rightarrow> AuditEntryWithoutHash \<Rightarrow> string" where
  "computeHash rt prevHash entryWithoutHash =
     ''sha256:'' @ sha256_hex rt (prevHash @ JSON_stringify_entry rt entryWithoutHash)"

definition getAuditPath :: "Runtime \<Rightarrow> Policy \<Rightarrow> string \<Rightarrow> string" where
  "getAuditPath rt policy cwd' = path_resolve rt cwd' (AuditConfig.path (audit policy))"

definition shouldRotate :: "Policy \<Rightarrow> AuditIO \<Rightarrow> string \<Rightarrow> State \<Rightarrow> bool" where
  "shouldRotate policy io auditPath st =
     (case files st auditPath of
        None \<Rightarrow> False
      | Some _ \<Rightarrow>
          file_size_mb io \<ge> max_file_size_mb (audit policy)
          \<or> (rotation (audit policy) = Daily \<and> today io \<noteq> file_date io))"

text \<open>
  \<^verbatim>\<open>rotateAuditFile\<close> renames the file to the first free name among
  \<^verbatim>\<open><base>.<date><ext>\<close>, \<^verbatim>\<open><base>.<date>.1<ext>\<close>, ... and resets the two variables.  The
  store keeps the audit paths only: the file leaves it, and the archive it becomes is not
  followed further.
\<close>

definition rotateAuditFile :: "string \<Rightarrow> State \<Rightarrow> State" where
  "rotateAuditFile auditPath st =
     st\<lparr>files := (files st)(auditPath := None), sequenceNumber := 0, lastHash := []\<rparr>"

text \<open>The block \<^verbatim>\<open>if (sequenceNumber === 0 && fs.existsSync(auditPath))\<close>: the sequence
  number and the hash of the last line, when that line parses.\<close>

definition resume_from_file :: "string \<Rightarrow> State \<Rightarrow> State" where
  "resume_from_file auditPath st =
     (if sequenceNumber st = 0 then
        (case files st auditPath of
           None \<Rightarrow> st
         | Some lines \<Rightarrow>
            (if lines = [] then st
             else (case last lines of
                     Entry lastEntry \<Rightarrow> st\<lparr>sequenceNumber := seq lastEntry, lastHash := hash lastEntry\<rparr>
                   | Unparseable \<Rightarrow> st)))
      else st)"

definition writeAuditEntry ::
  "Runtime \<Rightarrow> AuditIO \<Rightarrow> HookInput \<Rightarrow> ValidationResult \<Rightarrow> Policy \<Rightarrow> string
     \<Rightarrow> BudgetSnapshot option \<Rightarrow> State \<Rightarrow> State" where
  "writeAuditEntry rt io input' result policy cwd' budgetState st =
     (if \<not> AuditConfig.enabled (audit policy) then st
      else
        (let auditPath = getAuditPath rt policy cwd';
             st1 = (if shouldRotate policy io auditPath st then rotateAuditFile auditPath st else st);
             st2 = resume_from_file auditPath st1;
             n = sequenceNumber st2 + 1;
             entryWithoutHash =
               \<lparr> v = 1, ts = now io,
                 sid = (case session_id input' of None \<Rightarrow> ''unknown'' | Some s \<Rightarrow> s),
                 seq = n, tool = tool_name input',
                 input = (if include_tool_input (audit policy) then Some (tool_input input') else None),
                 AuditEntryWithoutHash.allowed = allowed result,
                 AuditEntryWithoutHash.reason = reason result,
                 AuditEntryWithoutHash.severity = severity result,
                 policy_match = pattern result,
                 budget = budgetState,
                 AuditEntryWithoutHash.cwd = cwd' \<rparr>;
             hash' = (if integrity (audit policy) = Sha256Chain
                      then computeHash rt (lastHash st2) entryWithoutHash else ''none'');
             entry = with_hash entryWithoutHash hash'
         in st2\<lparr> sequenceNumber := n, lastHash := hash',
                 files := (files st2)(auditPath \<mapsto>
                            (case files st2 auditPath of None \<Rightarrow> [] | Some lines \<Rightarrow> lines)
                            @ [Entry entry]) \<rparr>))"

text \<open>The loop of \<^verbatim>\<open>verifyAuditChain\<close> from line \<open>i\<close> on; \<open>n\<close> is \<^verbatim>\<open>lines.length\<close>.\<close>

fun verify_loop :: "Runtime \<Rightarrow> line list \<Rightarrow> nat \<Rightarrow> string \<Rightarrow> nat \<Rightarrow> VerifyResult" where
  "verify_loop rt [] i prevHash n = \<lparr> valid = True, entries = n, brokenAt = None \<rparr>"
| "verify_loop rt (Unparseable # rest) i prevHash n =
     \<lparr> valid = False, entries = i, brokenAt = Some (i + 1) \<rparr>"
| "verify_loop rt (Entry entry # rest) i prevHash n =
     (if hash entry \<noteq> computeHash rt prevHash (without_hash entry)
      then \<lparr> valid = False, entries = n, brokenAt = Some (i + 1) \<rparr>
      else verify_loop rt rest (i + 1) (hash entry) n)"

definition verifyAuditChain :: "Runtime \<Rightarrow> string \<Rightarrow> State \<Rightarrow> VerifyResult" where
  "verifyAuditChain rt auditPath st =
     (case files st auditPath of
        None \<Rightarrow> \<lparr> valid = True, entries = 0, brokenAt = None \<rparr>
      | Some lines \<Rightarrow>
          if lines = [] then \<lparr> valid = True, entries = 0, brokenAt = None \<rparr>
          else verify_loop rt lines 0 [] (length lines))"

definition resetAuditState :: "State \<Rightarrow> State" where
  "resetAuditState st = st\<lparr>lastHash := [], sequenceNumber := 0\<rparr>"

subsection \<open>kill.ts\<close>

definition shouldKill :: "Policy \<Rightarrow> ValidationResult \<Rightarrow> BudgetState \<Rightarrow> KillCheck" where
  "shouldKill policy result budgetState =
     (let k = kill_switch policy in
      if \<not> KillSwitchConfig.enabled k then \<lparr> kill = False, KillCheck.reason = [] \<rparr>
      else if on_blocklist_critical k \<and> \<not> allowed result \<and> severity result = Some Critical then
        \<lparr> kill = True,
          KillCheck.reason = ''Critical policy violation: ''
             @ (case reason result of None \<Rightarrow> ''null'' | Some r \<Rightarrow> r) \<rparr>
      else if on_budget_breach k \<and> exceeded budgetState
              \<and> action_on_breach (Policy.budget policy) = Kill then
        \<lparr> kill = True,
          KillCheck.reason = ''Budget exceeded: ''
             @ (case breach_reason budgetState of None \<Rightarrow> ''null'' | Some r \<Rightarrow> r) \<rparr>
      else \<lparr> kill = False, KillCheck.reason = [] \<rparr>)"

text \<open>\<^verbatim>\<open>executeKill\<close> never returns: the line it writes to standard error and the exit code
  are the outcome of the call.\<close>

definition executeKill :: "string \<Rightarrow> nat \<Rightarrow> 'a Outcome" where
  "executeKill reason' exitCode =
     Exit exitCode (''GUARDIAN KILL SWITCH: '' @ reason' @ ''. Session terminated.'' @ [CHR 0x0A])"

subsection \<open>validator.ts\<close>

definition checkAllowlist :: "Runtime \<Rightarrow> HookInput \<Rightarrow> Policy \<Rightarrow> bool" where
  "checkAllowlist rt input' policy =
     (let a = allowlist policy; filePath = string_or_empty (tool_input input') ''file_path'' in
      if tool_name input' = ''Bash''
         \<and> string_or_empty (tool_input input') ''command'' \<in> set (AllowlistConfig.commands a)
        then True
      else if filePath \<noteq> [] \<and> list_ex (\<lambda>p. prefix p filePath) (paths a) then True
      else if tool_name input' = ''WebFetch'' then
        (case URL_hostname rt (string_or_empty (tool_input input') ''url'') of
           Some hostname \<Rightarrow> hostname \<in> set (domains a)
         | None \<Rightarrow> False)
      else False)"

definition checkScope :: "Runtime \<Rightarrow> HookInput \<Rightarrow> Policy \<Rightarrow> string \<Rightarrow> ValidationResult option" where
  "checkScope rt input' policy cwd' =
     (let filePath = string_or_empty (tool_input input') ''file_path'' in
      if filePath = [] then None
      else
        (let resolved = path_resolve rt cwd' filePath in
         case find (\<lambda>denied. prefix denied resolved) (denied_paths (scope policy)) of
           Some denied \<Rightarrow>
             Some \<lparr> allowed = False, reason = Some (''Path in denied scope: '' @ denied),
                    severity = Some High, pattern = Some denied, source = Some SrcScope \<rparr>
         | None \<Rightarrow>
             if \<not> allow_outside_cwd (scope policy) then
               (let expandedAllowed = map (\<lambda>p. js_replace p ''{cwd}'' cwd') (allowed_paths (scope policy));
                    inAllowed = list_ex (\<lambda>allowed'. prefix allowed' resolved) expandedAllowed
                in if \<not> inAllowed then
                     Some \<lparr> allowed = False, reason = Some (''Path outside allowed scope: '' @ resolved),
                            severity = Some High, pattern = Some cwd', source = Some SrcScope \<rparr>
                   else None)
             else None))"

definition allow_result :: "Source option \<Rightarrow> ValidationResult" where
  "allow_result src = \<lparr> allowed = True, reason = None, severity = None, pattern = None, source = src \<rparr>"

text \<open>The object both callers of \<^verbatim>\<open>writeAuditEntry\<close> pass as its last argument.\<close>

definition budget_snapshot :: "Policy \<Rightarrow> BudgetState \<Rightarrow> BudgetSnapshot" where
  "budget_snapshot policy budgetState =
     \<lparr> remaining_usd =
         (case (session_cost_usd budgetState, session_limit_usd (Policy.budget policy)) of
            (Some c, Some limit) \<Rightarrow> Some (limit - c)
          | _ \<Rightarrow> None),
       BudgetSnapshot.action_count = BudgetState.action_count budgetState \<rparr>"

definition validate ::
  "Runtime \<Rightarrow> ValidateIO \<Rightarrow> HookInput \<Rightarrow> Policy \<Rightarrow> string \<Rightarrow> State
     \<Rightarrow> ValidationResult Outcome \<times> State" where
  "validate rt io input' policy cwd' st =
     (if mode policy = Off then (Return (allow_result None), st)
      else if checkAllowlist rt input' policy then (Return (allow_result (Some SrcAllowlist)), st)
      else
        (case checkScope rt input' policy cwd' of
           Some scopeResult \<Rightarrow>
             if mode policy = Audit then (Return (scopeResult\<lparr>allowed := True\<rparr>), st)
             else (Return scopeResult, st)
         | None \<Rightarrow>
            (case checkBlocklist rt input' policy st of
               (Some blocklistResult, st1) \<Rightarrow>
                 if mode policy = Audit then (Return (blocklistResult\<lparr>allowed := True\<rparr>), st1)
                 else (Return blocklistResult, st1)
             | (None, st1) \<Rightarrow>
                (case checkBudget rt policy cwd' (cost_read io) st1 of (budgetState, st2) \<Rightarrow>
                   if exceeded budgetState then
                     (let budgetResult =
                            \<lparr> allowed = False, reason = breach_reason budgetState,
                              severity = Some High, pattern = None, source = Some SrcBudget \<rparr>
                      in if mode policy = Audit then (Return (budgetResult\<lparr>allowed := True\<rparr>), st2)
                         else
                           (let st3 = writeAuditEntry rt (audit_io io) input' budgetResult policy cwd'
                                        (Some (budget_snapshot policy budgetState)) st2;
                                killCheck = shouldKill policy budgetResult budgetState
                            in if kill killCheck
                                 then (executeKill (KillCheck.reason killCheck)
                                         (exit_code (kill_switch policy)), st3)
                                 else (Return budgetResult, st3)))
                   else (Return (allow_result None), st2)))))"

definition validateAndAudit ::
  "Runtime \<Rightarrow> HookIO \<Rightarrow> HookInput \<Rightarrow> Policy \<Rightarrow> string \<Rightarrow> State
     \<Rightarrow> ValidationResult Outcome \<times> State" where
  "validateAndAudit rt io input' policy cwd' st =
     (case validate rt (validate_io io) input' policy cwd' st of
        (Exit code msg, st1) \<Rightarrow> (Exit code msg, st1)
      | (Return result, st1) \<Rightarrow>
         (case checkBudget rt policy cwd' (cost_read2 io) st1 of (budgetState, st2) \<Rightarrow>
            (let st3 = writeAuditEntry rt (audit_io2 io) input' result policy cwd'
                         (Some (budget_snapshot policy budgetState)) st2
             in if \<not> allowed result \<and> severity result = Some Critical then
                  (let killCheck = shouldKill policy result budgetState
                   in if kill killCheck
                        then (executeKill (KillCheck.reason killCheck)
                                (exit_code (kill_switch policy)), st3)
                        else (Return result, st3))
                else (Return result, st3))))"

subsection \<open>Regular expressions of the pattern bundles\<close>

text \<open>
  The expressions of the bundles use literals, character classes, the dot, sequence,
  alternation, greedy repetition, \<^verbatim>\<open>\b\<close>, \<^verbatim>\<open>$\<close> and negative lookahead.  \<open>rx\<close> is their
  abstract syntax.  Matching is by sets of positions: \<open>rx_step r ci (prev, rest)\<close> lists
  the states a match of \<open>r\<close> can end in when it starts with \<open>rest\<close> still to read and
  \<open>prev\<close> the character just before; \<open>ci\<close> is the flag \<^verbatim>\<open>i\<close>.  \<^verbatim>\<open>test\<close> asks for a match
  at some start position, which \<open>rx_search\<close> tries from left to right.
\<close>

datatype cset = CChar char | CRange char char | CSpace | CWord

datatype rx = Eps | Atom "cset list" | Dot | Seq rx rx | Alt rx rx | Star rx
  | WordB | Eos | NotAhead rx

definition char_in_range :: "char \<Rightarrow> char \<Rightarrow> char \<Rightarrow> bool" where
  "char_in_range lo hi c = ((of_char lo :: nat) \<le> of_char c \<and> (of_char c :: nat) \<le> of_char hi)"

definition is_word :: "char \<Rightarrow> bool" where
  "is_word c = (char_in_range (CHR ''a'') (CHR ''z'') c \<or> char_in_range (CHR ''A'') (CHR ''Z'') c
     \<or> char_in_range (CHR ''0'') (CHR ''9'') c \<or> c = CHR ''_'')"

definition swap_case :: "char \<Rightarrow> char" where
  "swap_case c =
     (if char_in_range (CHR ''a'') (CHR ''z'') c then char_of (of_char c - (32::nat))
      else if char_in_range (CHR ''A'') (CHR ''Z'') c then char_of (of_char c + (32::nat))
      else c)"

fun in_cset :: "char \<Rightarrow> cset \<Rightarrow> bool" where
  "in_cset c (CChar d) = (c = d)"
| "in_cset c (CRange lo hi) = char_in_range lo hi c"
| "in_cset c CSpace = is_space c"
| "in_cset c CWord = is_word c"

definition in_class :: "bool \<Rightarrow> char \<Rightarrow> cset list \<Rightarrow> bool" where
  "in_class ci c cs = list_ex (\<lambda>s. in_cset c s \<or> (ci \<and> in_cset (swap_case c) s)) cs"

type_synonym rx_state = "char option \<times> string"

text \<open>Repetition: zero rounds, or a round that reads at least one character and then
  the rest; \<open>n\<close> bounds the rounds by the number of characters left.\<close>

fun star_iter :: "(rx_state \<Rightarrow> rx_state list) \<Rightarrow> nat \<Rightarrow> rx_state \<Rightarrow> rx_state list" where
  "star_iter f 0 st = [st]"
| "star_iter f (Suc n) st =
     st # concat (map (star_iter f n)
                      (filter (\<lambda>st'. length (snd st') < length (snd st)) (f st)))"

definition word_opt :: "char option \<Rightarrow> bool" where
  "word_opt c = (case c of None \<Rightarrow> False | Some d \<Rightarrow> is_word d)"

primrec rx_step :: "rx \<Rightarrow> bool \<Rightarrow> rx_state \<Rightarrow> rx_state list" where
  "rx_step Eps ci st = [st]"
| "rx_step (Atom cs) ci st =
     (case snd st of [] \<Rightarrow> [] | c # r \<Rightarrow> if in_class ci c cs then [(Some c, r)] else [])"
| "rx_step Dot ci st =
     (case snd st of [] \<Rightarrow> []
      | c # r \<Rightarrow> if c = CHR 0x0A \<or> c = CHR 0x0D then [] else [(Some c, r)])"
| "rx_step (Seq a b) ci st = concat (map (rx_step b ci) (rx_step a ci st))"
| "rx_step (Alt a b) ci st = rx_step a ci st @ rx_step b ci st"
| "rx_step (Star a) ci st = star_iter (rx_step a ci) (length (snd st)) st"
| "rx_step WordB ci st =
     (if word_opt (fst st) \<noteq> word_opt (case snd st of [] \<Rightarrow> None | c # _ \<Rightarrow> Some c)
      then [st] else [])"
| "rx_step Eos ci st = (if snd st = [] then [st] else [])"
| "rx_step (NotAhead a) ci st = (if rx_step a ci st = [] then [st] else [])"

fun rx_search :: "rx \<Rightarrow> bool \<Rightarrow> char option \<Rightarrow> string \<Rightarrow> bool" where
  "rx_search r ci prev [] = (rx_step r ci (prev, []) \<noteq> [])"
| "rx_search r ci prev (c # cs) =
     (rx_step r ci (prev, c # cs) \<noteq> [] \<or> rx_search r ci (Some c) cs)"

definition rx_test :: "rx \<Rightarrow> bool \<Rightarrow> string \<Rightarrow> bool" where
  "rx_test r ci text = rx_search r ci None text"

definition lit :: "string \<Rightarrow> rx" where
  "lit s = foldr (\<lambda>c r. Seq (Atom [CChar c]) r) s Eps"

definition seqs :: "rx list \<Rightarrow> rx" where
  "seqs rs = foldr Seq rs Eps"

definition alts :: "rx list \<Rightarrow> rx" where
  "alts rs = foldr Alt (butlast rs) (last rs)"

definition plus :: "rx \<Rightarrow> rx" where
  "plus r = Seq r (Star r)"

definition opt :: "rx \<Rightarrow> rx" where
  "opt r = Alt r Eps"

fun rep :: "nat \<Rightarrow> rx \<Rightarrow> rx" where
  "rep 0 r = Eps"
| "rep (Suc n) r = Seq r (rep n r)"

definition at_least :: "nat \<Rightarrow> rx \<Rightarrow> rx" where
  "at_least n r = Seq (rep n r) (Star r)"

definition sp :: rx where
  "sp = Atom [CSpace]"

definition letters :: rx where
  "letters = Atom [CRange (CHR ''a'') (CHR ''z''), CRange (CHR ''A'') (CHR ''Z'')]"

definition alnum :: "cset list" where
  "alnum = [CRange (CHR ''a'') (CHR ''z''), CRange (CHR ''A'') (CHR ''Z''), CRange (CHR ''0'') (CHR ''9'')]"

text \<open>A pattern source with its expression.  In the sources of the patterns a backslash
  is written \<open>bs\<close>.\<close>

definition bs :: "string \<Rightarrow> string" where
  "bs s = backslash # s"

definition re_rm_force :: "string \<times> rx" where
  "re_rm_force =
     (''rm'' @ bs ''s+(-[a-zA-Z]*f[a-zA-Z]*|--force)'',
      seqs [lit ''rm'', plus sp,
            Alt (seqs [lit ''-'', Star letters, lit ''f'', Star letters]) (lit ''--force'')])"

definition re_rm_recursive :: "string \<times> rx" where
  "re_rm_recursive =
     (''rm'' @ bs ''s+(-[a-zA-Z]*r[a-zA-Z]*|--recursive)'' @ bs ''s+/(?!tmp)'',
      seqs [lit ''rm'', plus sp,
            Alt (seqs [lit ''-'', Star letters, lit ''r'', Star letters]) (lit ''--recursive''),
            plus sp, lit ''/'', NotAhead (lit ''tmp'')])"

definition re_git_push :: "string \<times> rx" where
  "re_git_push =
     (''git'' @ bs ''s+push'' @ bs ''s+.*--force'',
      seqs [lit ''git'', plus sp, lit ''push'', plus sp, Star Dot, lit ''--force''])"

definition re_git_reset :: "string \<times> rx" where
  "re_git_reset =
     (''git'' @ bs ''s+reset'' @ bs ''s+--hard'',
      seqs [lit ''git'', plus sp, lit ''reset'', plus sp, lit ''--hard''])"

definition re_git_clean :: "string \<times> rx" where
  "re_git_clean =
     (''git'' @ bs ''s+clean'' @ bs ''s+.*-f'',
      seqs [lit ''git'', plus sp, lit ''clean'', plus sp, Star Dot, lit ''-f''])"

definition re_drop :: "string \<times> rx" where
  "re_drop =
     (''DROP'' @ bs ''s+(TABLE|DATABASE|INDEX)'',
      seqs [lit ''DROP'', plus sp, alts [lit ''TABLE'', lit ''DATABASE'', lit ''INDEX'']])"

definition re_truncate :: "string \<times> rx" where
  "re_truncate =
     (''TRUNCATE'' @ bs ''s+TABLE'', seqs [lit ''TRUNCATE'', plus sp, lit ''TABLE''])"

definition re_mkfs :: "string \<times> rx" where
  "re_mkfs = (bs ''bmkfs'' @ bs ''b'', seqs [WordB, lit ''mkfs'', WordB])"

definition re_dd :: "string \<times> rx" where
  "re_dd = (bs ''bdd'' @ bs ''s+if='', seqs [WordB, lit ''dd'', plus sp, lit ''if=''])"

definition re_kill :: "string \<times> rx" where
  "re_kill = (''kill'' @ bs ''s+-9'', seqs [lit ''kill'', plus sp, lit ''-9''])"

definition re_pkill :: "string \<times> rx" where
  "re_pkill = (''pkill'' @ bs ''s+-9'', seqs [lit ''pkill'', plus sp, lit ''-9''])"

definition re_sudo :: "string \<times> rx" where
  "re_sudo = (bs ''bsudo'' @ bs ''b'', seqs [WordB, lit ''sudo'', WordB])"

definition re_chmod_777 :: "string \<times> rx" where
  "re_chmod_777 = (''chmod'' @ bs ''s+777'', seqs [lit ''chmod'', plus sp, lit ''777''])"

definition re_chown_root :: "string \<times> rx" where
  "re_chown_root =
     (bs ''bchown'' @ bs ''s+root'' @ bs ''b'',
      seqs [WordB, lit ''chown'', plus sp, lit ''root'', WordB])"

definition re_chmod_setuid :: "string \<times> rx" where
  "re_chmod_setuid =
     (''chmod'' @ bs ''s+[ug]'' @ bs ''+s'',
      seqs [lit ''chmod'', plus sp, Atom [CChar (CHR ''u''), CChar (CHR ''g'')], lit ''+s''])"

definition re_curl_pipe :: "string \<times> rx" where
  "re_curl_pipe =
     (''curl'' @ bs ''s.*'' @ bs ''|'' @ bs ''s*(ba)?sh'',
      seqs [lit ''curl'', sp, Star Dot, lit ''|'', Star sp, opt (lit ''ba''), lit ''sh''])"

definition re_eval :: "string \<times> rx" where
  "re_eval =
     (bs ''beval'' @ bs ''b.*'' @ bs ''$'',
      seqs [WordB, lit ''eval'', WordB, Star Dot, lit ''$''])"

definition re_npm_registry :: "string \<times> rx" where
  "re_npm_registry =
     (''npm'' @ bs ''s+install'' @ bs ''s+.*--registry'' @ bs ''s+(?!https://registry''
        @ bs ''.npmjs'' @ bs ''.org)'',
      seqs [lit ''npm'', plus sp, lit ''install'', plus sp, Star Dot, lit ''--registry'', plus sp,
            NotAhead (lit ''https://registry.npmjs.org'')])"

definition re_pip_url :: "string \<times> rx" where
  "re_pip_url =
     (''pip'' @ bs ''s+install'' @ bs ''s+https?://'',
      seqs [lit ''pip'', plus sp, lit ''install'', plus sp, lit ''http'', opt (lit ''s''), lit ''://''])"

definition re_aws_metadata :: "string \<times> rx" where
  "re_aws_metadata =
     (''169'' @ bs ''.254'' @ bs ''.169'' @ bs ''.254'', lit ''169.254.169.254'')"

definition re_gcp_metadata :: "string \<times> rx" where
  "re_gcp_metadata =
     (''metadata'' @ bs ''.google'' @ bs ''.internal'', lit ''metadata.google.internal'')"

definition re_api_key :: "string \<times> rx" where
  \<open>re_api_key =
     (''(?:api[_-]?key|apikey|secret[_-]?key|access[_-]?token)'' @ bs ''s*[:=]'' @ bs ''s*[''
        @ [squote] @ ''"]?[A-Za-z0-9+/=_-]{20,}'',
      seqs [alts [seqs [lit ''api'', opt (Atom [CChar (CHR ''_''), CChar (CHR ''-'')]), lit ''key''],
                  lit ''apikey'',
                  seqs [lit ''secret'', opt (Atom [CChar (CHR ''_''), CChar (CHR ''-'')]), lit ''key''],
                  seqs [lit ''access'', opt (Atom [CChar (CHR ''_''), CChar (CHR ''-'')]), lit ''token'']],
            Star sp, Atom [CChar (CHR '':''), CChar (CHR ''='')], Star sp,
            opt (Atom [CChar squote, CChar dquote]),
            at_least 20 (Atom (alnum @ [CChar (CHR ''+''), CChar (CHR ''/''), CChar (CHR ''=''),
                                        CChar (CHR ''_''), CChar (CHR ''-'')]))])\<close>

definition re_private_key :: "string \<times> rx" where
  "re_private_key =
     (''-----BEGIN (RSA |EC |DSA |OPENSSH )?PRIVATE KEY-----'',
      seqs [lit ''-----BEGIN '',
            opt (alts [lit ''RSA '', lit ''EC '', lit ''DSA '', lit ''OPENSSH '']),
            lit ''PRIVATE KEY-----''])"

definition re_aws_key :: "string \<times> rx" where
  "re_aws_key =
     (''AKIA[0-9A-Z]{16}'',
      seqs [lit ''AKIA'', rep 16 (Atom [CRange (CHR ''0'') (CHR ''9''), CRange (CHR ''A'') (CHR ''Z'')])])"

definition re_sk_key :: "string \<times> rx" where
  "re_sk_key = (''sk-[a-zA-Z0-9]{20,}'', seqs [lit ''sk-'', at_least 20 (Atom alnum)])"

definition re_env_file :: "string \<times> rx" where
  "re_env_file = (bs ''.env$'', seqs [lit ''.env'', Eos])"

definition re_credentials_file :: "string \<times> rx" where
  "re_credentials_file = (''credentials'' @ bs ''.json$'', seqs [lit ''credentials.json'', Eos])"

definition re_key_file :: "string \<times> rx" where
  "re_key_file =
     (''id_rsa$|id_ed25519$|'' @ bs ''.pem$'',
      alts [seqs [lit ''id_rsa'', Eos], seqs [lit ''id_ed25519'', Eos], seqs [lit ''.pem'', Eos]])"

definition regexp_table :: "(string \<times> rx) list" where
  "regexp_table =
     [re_rm_force, re_rm_recursive, re_git_push, re_git_reset, re_git_clean, re_drop,
      re_truncate, re_mkfs, re_dd, re_kill, re_pkill,
      re_sudo, re_chmod_777, re_chown_root, re_chmod_setuid,
      re_curl_pipe, re_eval, re_npm_registry, re_pip_url,
      re_aws_metadata, re_gcp_metadata,
      re_api_key, re_private_key, re_aws_key, re_sk_key,
      re_env_file, re_credentials_file, re_key_file]"

text \<open>\<^verbatim>\<open>new RegExp(p, f).test(t)\<close> for the expressions of the table; an expression that is
  not in the table matches nothing here.\<close>

definition js_RegExp_test :: "string \<Rightarrow> string \<Rightarrow> string \<Rightarrow> bool" where
  "js_RegExp_test p f t =
     (case map_of regexp_table p of
        None \<Rightarrow> False
      | Some r \<Rightarrow> rx_test r (CHR ''i'' \<in> set f) t)"

subsection \<open>The pattern bundles and the default policy\<close>

definition cmd_pattern :: "string \<times> rx \<Rightarrow> Severity \<Rightarrow> string \<Rightarrow> string option \<Rightarrow> CommandPattern" where
  "cmd_pattern re sev why fl =
     \<lparr> Pattern.pattern = fst re, Pattern.severity = sev, Pattern.reason = why, flags = fl \<rparr>"

definition net_pattern :: "string \<times> rx \<Rightarrow> Severity \<Rightarrow> string \<Rightarrow> NetworkPattern" where
  "net_pattern re sev why =
     \<lparr> Pattern.pattern = fst re, Pattern.severity = sev, Pattern.reason = why \<rparr>"

definition file_pattern :: "string \<times> rx \<Rightarrow> FileOperation list \<Rightarrow> Severity \<Rightarrow> string \<Rightarrow> FilePattern" where
  "file_pattern re ops sev why =
     \<lparr> Pattern.pattern = fst re, Pattern.severity = sev, Pattern.reason = why, operations = ops \<rparr>"

text \<open>The em dash of three reason texts, as its UTF-8 bytes.\<close>

definition em_dash :: string where
  "em_dash = [CHR 0xE2, CHR 0x80, CHR 0x94]"

definition DESTRUCTIVE_PATTERNS :: "CommandPattern list" where
  "DESTRUCTIVE_PATTERNS =
     [cmd_pattern re_rm_force Critical ''Forced file deletion'' None,
      cmd_pattern re_rm_recursive Critical ''Recursive deletion outside /tmp'' None,
      cmd_pattern re_git_push High ''Force push can destroy remote history'' None,
      cmd_pattern re_git_reset High ''Hard reset destroys uncommitted work'' None,
      cmd_pattern re_git_clean High ''Git clean -f deletes untracked files permanently'' None,
      cmd_pattern re_drop Critical ''SQL destructive operation'' (Some ''i''),
      cmd_pattern re_truncate Critical ''SQL destructive operation'' (Some ''i''),
      cmd_pattern re_mkfs Critical ''Disk formatting'' None,
      cmd_pattern re_dd Critical ''Raw disk write'' None,
      cmd_pattern re_kill High ''Force kill process'' None,
      cmd_pattern re_pkill High ''Force kill processes by name'' None]"

definition PRIVILEGE_PATTERNS :: "CommandPattern list" where
  "PRIVILEGE_PATTERNS =
     [cmd_pattern re_sudo High ''Privilege escalation via sudo'' None,
      cmd_pattern re_chmod_777 High ''World-writable permissions'' None,
      cmd_pattern re_chown_root High ''Ownership change to root'' None,
      cmd_pattern re_chmod_setuid High
        (''Setuid/setgid bit '' @ em_dash @ '' privilege inheritance on execution'') None]"

definition EXFILTRATION_COMMAND_PATTERNS :: "CommandPattern list" where
  "EXFILTRATION_COMMAND_PATTERNS =
     [cmd_pattern re_curl_pipe Critical ''Remote code execution via pipe to shell'' None,
      cmd_pattern re_eval High ''Dynamic eval with variable expansion'' None]"

definition NETWORK_PATTERNS :: "NetworkPattern list" where
  "NETWORK_PATTERNS =
     [net_pattern re_aws_metadata Critical (''AWS metadata endpoint '' @ em_dash @ '' SSRF vector''),
      net_pattern re_gcp_metadata Critical (''GCP metadata endpoint '' @ em_dash @ '' SSRF vector'')]"

definition SUPPLY_CHAIN_PATTERNS :: "CommandPattern list" where
  "SUPPLY_CHAIN_PATTERNS =
     [cmd_pattern re_npm_registry Medium ''npm install from non-standard registry'' None,
      cmd_pattern re_pip_url Medium
        (''pip install from URL '' @ em_dash @ '' untrusted package source'') None]"

definition SECRET_CONTENT_PATTERNS :: "SecretPattern list" where
  "SECRET_CONTENT_PATTERNS =
     [cmd_pattern re_api_key High ''Potential API key or secret in content'' (Some ''i''),
      cmd_pattern re_private_key Critical ''Private key in content'' None,
      cmd_pattern re_aws_key Critical ''AWS access key ID'' None,
      cmd_pattern re_sk_key High ''Potential API secret key (OpenAI, Stripe, etc.)'' None]"

definition SECRET_FILE_PATTERNS :: "FilePattern list" where
  "SECRET_FILE_PATTERNS =
     [file_pattern re_env_file [OpWrite, OpDelete, OpGitAdd] High
        ''Environment file with potential secrets'',
      file_pattern re_credentials_file [OpWrite, OpDelete, OpGitAdd] Critical ''Credentials file'',
      file_pattern re_key_file [OpRead, OpWrite, OpDelete, OpGitAdd] Critical ''Private key file'']"

text \<open>
  Modelled from the spec: the default policy file \<^verbatim>\<open>.guardian/policy.default.json\<close> is
  not among the sources.  The specification names its parts (enforce mode, the built-in
  destructive, privilege, secret, exfiltration and supply-chain rules, an audit file
  \<^verbatim>\<open>.guardian/audit.jsonl\<close>, exit code 2); the rules are the bundles under
  \<^verbatim>\<open>patterns/\<close> in the order the README lists them, and the settings are those of the
  README's policy sample.
\<close>

definition default_policy :: Policy where
  "default_policy =
     \<lparr> version = 1, mode = Enforce,
       blocklist =
         \<lparr> BlocklistConfig.commands =
             DESTRUCTIVE_PATTERNS @ PRIVILEGE_PATTERNS @ EXFILTRATION_COMMAND_PATTERNS
             @ SUPPLY_CHAIN_PATTERNS,
           BlocklistConfig.file_patterns = SECRET_FILE_PATTERNS,
           BlocklistConfig.secret_patterns = SECRET_CONTENT_PATTERNS,
           BlocklistConfig.network = NETWORK_PATTERNS \<rparr>,
       allowlist = \<lparr> AllowlistConfig.commands = [], paths = [], domains = [] \<rparr>,
       scope = \<lparr> allowed_paths = [''{cwd}''],
                 denied_paths = [''/etc'', ''/usr'', ''/var'', ''/sys''],
                 allow_outside_cwd = False \<rparr>,
       Policy.budget =
         \<lparr> BudgetConfig.enabled = False, max_actions_per_session = 500,
           session_limit_usd = None, cost_file = ''.guardian/costs.json'',
           action_on_breach = Kill \<rparr>,
       audit =
         \<lparr> AuditConfig.enabled = True, path = ''.guardian/audit.jsonl'',
           include_tool_input = True, include_tool_output = False,
           integrity = Sha256Chain, max_file_size_mb = 50, rotation = Daily \<rparr>,
       kill_switch =
         \<lparr> KillSwitchConfig.enabled = True, on_blocklist_critical = True,
           on_budget_breach = True, on_integrity_violation = True, exit_code = 2 \<rparr> \<rparr>"

text \<open>A \<^verbatim>\<open>Bash\<close> request with the given command, and a request of a file tool.\<close>

definition bash_input :: "string \<Rightarrow> HookInput" where
  "bash_input command =
     \<lparr> tool_name = ''Bash'', tool_input = [(''command'', JStr command)],
       session_id = None, HookInput.cwd = None \<rparr>"

definition file_input :: "string \<Rightarrow> string \<Rightarrow> HookInput" where
  "file_input tool' filePath =
     \<lparr> tool_name = tool', tool_input = [(''file_path'', JStr filePath)],
       session_id = None, HookInput.cwd = None \<rparr>"

subsection \<open>Definitions that follow the specification\<close>

text \<open>
  The stripped view as the specification words it: outside quotes a character is kept; a
  single quote opens a region that runs to the next single quote, with no escapes; a
  double quote opens a region that runs to the next double quote that is not escaped, a
  backslash in it taking the following character with it; the delimiters go with the
  region, and a region that is not closed runs to the end of the string.
\<close>

fun unquoted :: "string \<Rightarrow> string"
  and single_quoted :: "string \<Rightarrow> string"
  and double_quoted :: "string \<Rightarrow> string" where
  "unquoted [] = []"
| "unquoted (c # cs) =
     (if c = squote then single_quoted cs
      else if c = dquote then double_quoted cs
      else c # unquoted cs)"
| "single_quoted [] = []"
| "single_quoted (c # cs) = (if c = squote then unquoted cs else single_quoted cs)"
| "double_quoted [] = []"
| "double_quoted (c # cs) =
     (if c = backslash then (case cs of [] \<Rightarrow> [] | escaped # cs' \<Rightarrow> double_quoted cs')
      else if c = dquote then unquoted cs
      else double_quoted cs)"

text \<open>The result \<^verbatim>\<open>validate\<close> builds from a budget state that reports a breach.\<close>

definition budget_result :: "BudgetState \<Rightarrow> ValidationResult" where
  "budget_result b = \<lparr> allowed = False, reason = breach_reason b, severity = Some High,
                       pattern = None, source = Some SrcBudget \<rparr>"

text \<open>
  The segments as the specification words them: the split at \<^verbatim>\<open>&&\<close>, \<^verbatim>\<open>||\<close>, \<^verbatim>\<open>;\<close> and
  \<^verbatim>\<open>|\<close> where no quote is open and the subshell depth is zero.  An opening parenthesis,
  alone or as \<^verbatim>\<open>$(\<close>, opens one subshell; a closing parenthesis closes one.  Pieces are
  trimmed and empty ones dropped, as in the source.
\<close>

fun top_level_loop :: "string \<Rightarrow> string \<Rightarrow> nat \<Rightarrow> bool \<Rightarrow> bool \<Rightarrow> string list \<Rightarrow> string list \<times> string" where
  "top_level_loop [] current depth inSingle inDouble segments = (segments, current)"
| "top_level_loop (ch # rest) current depth inSingle inDouble segments =
    (let next = (case rest of [] \<Rightarrow> None | n # _ \<Rightarrow> Some n) in
     if ch = squote \<and> \<not> inDouble
       then top_level_loop rest (current @ [ch]) depth (\<not> inSingle) inDouble segments
     else if ch = dquote \<and> \<not> inSingle
       then top_level_loop rest (current @ [ch]) depth inSingle (\<not> inDouble) segments
     else if inSingle \<or> inDouble
       then top_level_loop rest (current @ [ch]) depth inSingle inDouble segments
     else if ch = CHR ''$'' \<and> next = Some (CHR ''('')
       then top_level_loop (tl rest) (current @ [ch, CHR ''('']) (depth + 1) inSingle inDouble segments
     else if ch = CHR ''(''
       then top_level_loop rest (current @ [ch]) (depth + 1) inSingle inDouble segments
     else if ch = CHR '')''
       then top_level_loop rest (current @ [ch]) (depth - 1) inSingle inDouble segments
     else if depth > 0
       then top_level_loop rest (current @ [ch]) depth inSingle inDouble segments
     else if ch = CHR ''&'' \<and> next = Some (CHR ''&'')
       then top_level_loop (tl rest) [] depth inSingle inDouble (segments @ [trim current])
     else if ch = CHR ''|'' \<and> next = Some (CHR ''|'')
       then top_level_loop (tl rest) [] depth inSingle inDouble (segments @ [trim current])
     else if ch = CHR '';''
       then top_level_loop rest [] depth inSingle inDouble (segments @ [trim current])
     else if ch = CHR ''|''
       then top_level_loop rest [] depth inSingle inDouble (segments @ [trim current])
     else top_level_loop rest (current @ [ch]) depth inSingle inDouble segments)"

definition top_level_split :: "string \<Rightarrow> string list" where
  "top_level_split command =
     (case top_level_loop command [] 0 False False [] of
        (segments, current) \<Rightarrow>
          filter (\<lambda>s. s \<noteq> [])
            (if trim current \<noteq> [] then segments @ [trim current] else segments))"

text \<open>
  Two readings of the expansion of an allowed path: every occurrence of the pattern
  replaced, as the specification says, and the first occurrence only.
\<close>

function replace_all :: "string \<Rightarrow> string \<Rightarrow> string \<Rightarrow> string" where
  "replace_all pat new [] = []"
| "replace_all pat new (c # cs) =
     (if pat \<noteq> [] \<and> prefix pat (c # cs)
      then new @ replace_all pat new (drop (length pat) (c # cs))
      else c # replace_all pat new cs)"
  by pat_completeness auto
termination
  by (relation "measure (\<lambda>(pat, new, s). length s)") (auto simp: Suc_le_eq)

definition replace_first :: "string \<Rightarrow> string \<Rightarrow> string \<Rightarrow> string" where
  "replace_first pat new s =
     (case find_sub pat s of None \<Rightarrow> s | Some (b, a) \<Rightarrow> b @ new @ a)"

text \<open>
  The chain as the specification words it: the hash of an entry is \<^verbatim>\<open>sha256:\<close> followed by
  the digest of the hash of the entry before it (\<open>prev\<close>, the empty string for the first
  entry of a file) and the serialization of the entry without its hash.
\<close>

fun hash_chain :: "Runtime \<Rightarrow> string \<Rightarrow> AuditEntry list \<Rightarrow> bool" where
  "hash_chain rt prev [] = True"
| "hash_chain rt prev (e # es) =
     (hash e = ''sha256:'' @ sha256_hex rt (prev @ JSON_stringify_entry rt (without_hash e))
      \<and> hash_chain rt (hash e) es)"

text \<open>
  The life of an audit file: calls of \<^verbatim>\<open>writeAuditEntry\<close>, and process starts in between,
  at which the module variables are fresh and the files stay.
\<close>

record WriteCall =
  w_io :: AuditIO
  w_input :: HookInput
  w_result :: ValidationResult
  w_policy :: Policy
  w_cwd :: string
  w_budget :: "BudgetSnapshot option"

datatype Event = Write WriteCall | Restart

fun run_event :: "Runtime \<Rightarrow> State \<Rightarrow> Event \<Rightarrow> State" where
  "run_event rt st (Write w) =
     writeAuditEntry rt (w_io w) (w_input w) (w_result w) (w_policy w) (w_cwd w) (w_budget w) st"
| "run_event rt st Restart = process_start (files st)"

definition run_events :: "Runtime \<Rightarrow> Event list \<Rightarrow> State \<Rightarrow> State" where
  "run_events rt events st = foldl (run_event rt) st events"

text \<open>A write that goes to the audit file \<open>p\<close> with the chain switched on, or that is
  switched off altogether.\<close>

fun chained_write_to :: "Runtime \<Rightarrow> string \<Rightarrow> Event \<Rightarrow> bool" where
  "chained_write_to rt p (Write w) =
     (if AuditConfig.enabled (audit (w_policy w))
      then integrity (audit (w_policy w)) = Sha256Chain
           \<and> getAuditPath rt (w_policy w) (w_cwd w) = p
      else True)"
| "chained_write_to rt p Restart = True"

text \<open>The entries of a file, when all its lines are entries.\<close>

fun entries_of :: "line list \<Rightarrow> AuditEntry list option" where
  "entries_of [] = Some []"
| "entries_of (Entry e # ls) = map_option ((#) e) (entries_of ls)"
| "entries_of (Unparseable # ls) = None"

text \<open>The policy of the budget test of the validator: the default policy with a limit of
  two actions and the breach answered by a deny.  And readings of the world in which
  nothing calls for a rotation.\<close>

definition budget_two_policy :: Policy where
  "budget_two_policy =
     default_policy\<lparr> Policy.budget :=
       \<lparr> BudgetConfig.enabled = True, max_actions_per_session = 2, session_limit_usd = None,
         cost_file = ''costs.json'', action_on_breach = Deny \<rparr> \<rparr>"

definition quiet_audit_io :: AuditIO where
  "quiet_audit_io = \<lparr> now = ''2026-01-01T00:00:00.000Z'', today = ''2026-01-01'',
                       file_size_mb = 0, file_date = ''2026-01-01'' \<rparr>"

definition quiet_io :: HookIO where
  "quiet_io = \<lparr> validate_io = \<lparr> cost_read = None, audit_io = quiet_audit_io \<rparr>,
                 cost_read2 = None, audit_io2 = quiet_audit_io \<rparr>"

text \<open>The policy whose one allowed path names the working directory twice.\<close>

definition twice_cwd_policy :: Policy where
  "twice_cwd_policy =
     default_policy\<lparr> scope :=
       \<lparr> allowed_paths = [''{cwd}{cwd}''], denied_paths = [], allow_outside_cwd = False \<rparr> \<rparr>"

text \<open>The default policy with the audit integrity switched to \<^verbatim>\<open>none\<close>.\<close>

definition no_integrity_policy :: Policy where
  "no_integrity_policy =
     default_policy\<lparr> audit := (audit default_policy)\<lparr> integrity := IntegrityNone \<rparr> \<rparr>"

text \<open>
  A runtime that has the regular expressions of the bundles and nothing else of
  interest; the compiled patterns of a policy depend on the runtime through
  \<open>RegExp_test\<close> only, so that they can be evaluated on it.
\<close>

definition rx_only :: Runtime where
  "rx_only = \<lparr> RegExp_test = js_RegExp_test, URL_hostname = (\<lambda>u. None),
                sha256_hex = (\<lambda>s. []), process_cwd = [], Number_toString = (\<lambda>q. []),
                Number_toFixed2 = (\<lambda>q. []) \<rparr>"

text \<open>The verdict of the \<^verbatim>\<open>Bash\<close> branch of \<^verbatim>\<open>checkBlocklist\<close>, given the compiled patterns.\<close>

definition bash_verdict :: "CompiledPatterns \<Rightarrow> string \<Rightarrow> ValidationResult option" where
  "bash_verdict patterns command =
     (case matchPatterns (stripQuotedStrings command) (CompiledPatterns.commands patterns) of
        Some p \<Rightarrow> Some (blocked p)
      | None \<Rightarrow>
         (case first_match (map stripQuotedStrings (splitShellCommand command))
                 (CompiledPatterns.commands patterns) of
            Some p \<Rightarrow> Some (blocked p)
          | None \<Rightarrow>
             (case first_match (extractSubcommands command) (CompiledPatterns.commands patterns) of
                Some p \<Rightarrow> Some (blocked p)
              | None \<Rightarrow>
                  map_option blocked (matchPatterns command (CompiledPatterns.network patterns)))))"

definition lines_of :: "line list option \<Rightarrow> line list" where
  "lines_of f = (case f of None \<Rightarrow> [] | Some ls \<Rightarrow> ls)"

text \<open>The deny of the budget gate at the \<open>n\<close>-th action under a limit of two.\<close>

definition limit_exceeded :: "nat \<Rightarrow> ValidationResult" where
  "limit_exceeded n =
     \<lparr> allowed = False, reason = Some (''Action limit exceeded: '' @ show_nat n @ ''/2''),
       severity = Some High, pattern = None, source = Some SrcBudget \<rparr>"

text \<open>A command in which no dollar sign is followed by an opening parenthesis.\<close>

fun dollar_paren_free :: "string \<Rightarrow> bool" where
  "dollar_paren_free (c # d # cs) =
     (\<not> (c = CHR ''$'' \<and> d = CHR ''('') \<and> dollar_paren_free (d # cs))"
| "dollar_paren_free cs = True"

text \<open>The audit file of the default policy for the working directory \<^verbatim>\<open>/w\<close>.\<close>

abbreviation audit_file :: string where
  "audit_file \<equiv> ''/w/.guardian/audit.jsonl''"

text \<open>The hash that the next entry of a chain is computed from: the hash of the last
  entry, or the start value when there is none.\<close>

definition last_hash :: "string \<Rightarrow> AuditEntry list \<Rightarrow> string" where
  "last_hash prev es = (if es = [] then prev else hash (last es))"

text \<open>
  The state of a process and the audit file \<open>p\<close> agree on a chain: the file holds the
  entries \<open>es\<close>, they form a hash chain from the empty string, and the two module
  variables are either at their start values or hold the hash of the last entry.
\<close>

definition chain_state :: "Runtime \<Rightarrow> string \<Rightarrow> State \<Rightarrow> AuditEntry list \<Rightarrow> bool" where
  "chain_state rt p st es =
     (lines_of (files st p) = map Entry es \<and> hash_chain rt [] es
      \<and> (if sequenceNumber st = 0 then lastHash st = [] else es \<noteq> [] \<and> lastHash st = hash (last es)))"

text \<open>
  A runtime whose digest is the identity, so that two payloads have the same digest only
  when they are the same; and a run of two processes that each write one entry for the
  same request under the default policy.
\<close>

definition identity_digest_runtime :: Runtime where
  "identity_digest_runtime = rx_only\<lparr>sha256_hex := (\<lambda>s. s)\<rparr>"

definition sample_write :: WriteCall where
  "sample_write = \<lparr> w_io = quiet_audit_io, w_input = bash_input ''echo test'',
                     w_result = allow_result None, w_policy = default_policy, w_cwd = ''/w'',
                     w_budget = None \<rparr>"

definition sample_events :: "Event list" where
  "sample_events = [Write sample_write, Restart, Write sample_write]"


section \<open>Properties\<close>

subsection \<open>Evaluation of the default policy\<close>

lemmas re_defs = re_rm_force_def re_rm_recursive_def re_git_push_def re_git_reset_def
  re_git_clean_def re_drop_def re_truncate_def re_mkfs_def re_dd_def re_kill_def re_pkill_def
  re_sudo_def re_chmod_777_def re_chown_root_def re_chmod_setuid_def re_curl_pipe_def re_eval_def
  re_npm_registry_def re_pip_url_def re_aws_metadata_def re_gcp_metadata_def re_api_key_def
  re_private_key_def re_aws_key_def re_sk_key_def re_env_file_def re_credentials_file_def
  re_key_file_def

lemmas rx_eval = js_RegExp_test_def regexp_table_def re_defs bs_def rx_test_def lit_def seqs_def
  alts_def plus_def opt_def at_least_def sp_def letters_def alnum_def in_class_def
  char_in_range_def is_word_def is_space_def word_opt_def swap_case_def

lemmas bundle_defs = default_policy_def DESTRUCTIVE_PATTERNS_def PRIVILEGE_PATTERNS_def
  EXFILTRATION_COMMAND_PATTERNS_def SUPPLY_CHAIN_PATTERNS_def NETWORK_PATTERNS_def
  SECRET_CONTENT_PATTERNS_def SECRET_FILE_PATTERNS_def cmd_pattern_def net_pattern_def
  file_pattern_def

lemmas shell_eval = stripQuotedStrings_def splitShellCommand_def extractSubcommands_def
  trim_def is_space_def

lemmas field_eval = bash_input_def file_input_def string_or_empty_def string_field_def

lemmas path_eval = path_resolve_def is_absolute_def normalize_segments_def

lemma default_mode: "mode default_policy = Enforce"
  by (simp add: default_policy_def)

subsection \<open>The gates and the pipeline\<close>

lemma checkScope_deny:
  assumes "checkScope rt input' policy cwd' = Some r"
  shows "\<not> allowed r \<and> source r = Some SrcScope \<and> severity r = Some High"
  using assms
  by (auto simp: checkScope_def Let_def split: if_splits option.splits)

lemma checkBlocklist_deny:
  assumes "checkBlocklist rt input' policy st = (Some r, st1)"
  shows "\<not> allowed r \<and> source r = Some SrcBlocklist"
  using assms
  by (auto simp: checkBlocklist_def Let_def blocked_def split: if_splits option.splits prod.splits)

lemma gates_ignore_mode:
  "checkAllowlist rt input' (policy\<lparr>mode := m\<rparr>) = checkAllowlist rt input' policy"
  "checkScope rt input' (policy\<lparr>mode := m\<rparr>) cwd' = checkScope rt input' policy cwd'"
  "checkBlocklist rt input' (policy\<lparr>mode := m\<rparr>) st = checkBlocklist rt input' policy st"
  "checkBudget rt (policy\<lparr>mode := m\<rparr>) cwd' cost st = checkBudget rt policy cwd' cost st"
  by (simp_all add: checkAllowlist_def checkScope_def checkBlocklist_def checkBudget_def
      getPatterns_def compilePatterns_def file_match_def Let_def
      cong: if_cong option.case_cong prod.case_cong)

lemma validate_allowlist:
  "mode policy \<noteq> Off \<Longrightarrow> checkAllowlist rt input' policy
   \<Longrightarrow> validate rt io input' policy cwd' st = (Return (allow_result (Some SrcAllowlist)), st)"
  by (simp add: validate_def)

lemma validate_scope:
  assumes "mode policy \<noteq> Off" "\<not> checkAllowlist rt input' policy"
    "checkScope rt input' policy cwd' = Some r"
  shows "validate rt io input' policy cwd' st = (Return (r\<lparr>allowed := (mode policy = Audit)\<rparr>), st)"
  using assms checkScope_deny [OF assms(3)]
  by (simp add: validate_def)

lemma validate_blocklist:
  assumes "mode policy \<noteq> Off" "\<not> checkAllowlist rt input' policy"
    "checkScope rt input' policy cwd' = None"
    "checkBlocklist rt input' policy st = (Some r, st1)"
  shows "validate rt io input' policy cwd' st = (Return (r\<lparr>allowed := (mode policy = Audit)\<rparr>), st1)"
  using assms checkBlocklist_deny [OF assms(4)]
  by (simp add: validate_def)

lemma validate_budget_ok:
  assumes "mode policy \<noteq> Off" "\<not> checkAllowlist rt input' policy"
    "checkScope rt input' policy cwd' = None"
    "checkBlocklist rt input' policy st = (None, st1)"
    "checkBudget rt policy cwd' (cost_read io) st1 = (b, st2)" "\<not> exceeded b"
  shows "validate rt io input' policy cwd' st = (Return (allow_result None), st2)"
  using assms by (simp add: validate_def)

lemma validate_budget_audit:
  assumes "mode policy = Audit" "\<not> checkAllowlist rt input' policy"
    "checkScope rt input' policy cwd' = None"
    "checkBlocklist rt input' policy st = (None, st1)"
    "checkBudget rt policy cwd' (cost_read io) st1 = (b, st2)" "exceeded b"
  shows "validate rt io input' policy cwd' st = (Return ((budget_result b)\<lparr>allowed := True\<rparr>), st2)"
  using assms by (simp add: validate_def budget_result_def)

lemma validate_budget_enforce:
  assumes "mode policy = Enforce" "\<not> checkAllowlist rt input' policy"
    "checkScope rt input' policy cwd' = None"
    "checkBlocklist rt input' policy st = (None, st1)"
    "checkBudget rt policy cwd' (cost_read io) st1 = (b, st2)" "exceeded b"
  shows "validate rt io input' policy cwd' st =
     ((if kill (shouldKill policy (budget_result b) b)
       then executeKill (KillCheck.reason (shouldKill policy (budget_result b) b))
              (exit_code (kill_switch policy))
       else Return (budget_result b)),
      writeAuditEntry rt (audit_io io) input' (budget_result b) policy cwd'
         (Some (budget_snapshot policy b)) st2)"
  using assms by (simp add: validate_def budget_result_def Let_def)

lemma bash_not_allowlisted_by_default:
  "\<not> checkAllowlist rt (bash_input command) default_policy"
  by (simp add: checkAllowlist_def field_eval default_policy_def)

lemma bash_passes_scope:
  "checkScope rt (bash_input command) policy cwd' = None"
  by (simp add: checkScope_def field_eval)

subsection \<open>The stripped view\<close>

lemma strip_loop_spec:
  "strip_loop s False False acc = acc @ unquoted s
   \<and> strip_loop s True False acc = acc @ single_quoted s
   \<and> strip_loop s False True acc = acc @ double_quoted s"
proof (induction s arbitrary: acc rule: length_induct)
  case (1 s)
  show ?case
  proof (cases s)
    case Nil
    then show ?thesis by simp
  next
    case (Cons c cs)
    have IH: "strip_loop t False False a = a @ unquoted t
        \<and> strip_loop t True False a = a @ single_quoted t
        \<and> strip_loop t False True a = a @ double_quoted t" if "length t \<le> length cs" for t a
      using 1 that Cons by simp
    have tl: "length (tl cs) \<le> length cs" by simp
    show ?thesis
      using IH [of cs] IH [OF tl] Cons by (cases cs) auto
  qed
qed

lemma compile_js:
  "compilePatterns (rt\<lparr>RegExp_test := js_RegExp_test\<rparr>) policy = compilePatterns rx_only policy"
  by (simp add: compilePatterns_def rx_only_def)

lemma checkBlocklist_bash:
  "checkBlocklist rt (bash_input command) policy st =
     (bash_verdict (fst (getPatterns rt policy st)) command, snd (getPatterns rt policy st))"
proof -
  obtain c st' where g: "getPatterns rt policy st = (c, st')"
    by (cases "getPatterns rt policy st")
  show ?thesis
    by (simp add: checkBlocklist_def bash_verdict_def field_eval Let_def g split: option.split)
qed

lemma getPatterns_start:
  "getPatterns rt policy (process_start fs)
   = (compilePatterns rt policy, (process_start fs)\<lparr>compiledPatterns := Some (compilePatterns rt policy)\<rparr>)"
  by (simp add: getPatterns_def process_start_def Let_def)

lemma echo_quoted_verdict:
  \<open>bash_verdict (compilePatterns rx_only default_policy) ''echo "rm -rf /"'' = None\<close>
  by code_simp

lemma echo_quoted_blocklist:
  \<open>fst (checkBlocklist (rt\<lparr>RegExp_test := js_RegExp_test\<rparr>) (bash_input ''echo "rm -rf /"'')
          default_policy (process_start fs)) = None\<close>
  by (simp add: checkBlocklist_bash getPatterns_start compile_js echo_quoted_verdict)

lemma validate_bash_default:
  "fst (validate (rt\<lparr>RegExp_test := js_RegExp_test\<rparr>) io (bash_input command) default_policy cwd'
          (process_start fs))
   = Return (case bash_verdict (compilePatterns rx_only default_policy) command of
               Some r \<Rightarrow> r
             | None \<Rightarrow> allow_result None)"
proof -
  have b: "\<not> BudgetConfig.enabled (Policy.budget default_policy)"
    by (simp add: default_policy_def)
  show ?thesis
    by (simp add: validate_def default_mode bash_not_allowlisted_by_default bash_passes_scope
        checkBlocklist_bash getPatterns_start compile_js checkBudget_def b Let_def
        split: option.split)
qed

lemma validate_bash_eval:
  assumes "bash_verdict (compilePatterns rx_only default_policy) command = verdict"
  shows "fst (validate (rt\<lparr>RegExp_test := js_RegExp_test\<rparr>) io (bash_input command) default_policy cwd'
          (process_start fs))
   = Return (case verdict of Some r \<Rightarrow> r | None \<Rightarrow> allow_result None)"
  using assms validate_bash_default [of rt io command cwd' fs] by simp

text \<open>
  C4.  For every text, \<^verbatim>\<open>stripQuotedStrings\<close> returns the stripped view of the
  specification: the text without its single- and double-quoted regions and without their
  delimiters, a backslash escaping one character inside double quotes only, single quotes
  knowing no escapes, an unclosed quote running to the end.  And in a process that has
  just started, under the default policy (enforce mode) and with the regular expressions
  of the bundles, the command \<^verbatim>\<open>echo "rm -rf /"\<close> is allowed: its stripped view is
  \<^verbatim>\<open>echo \<close> followed by nothing, which no command pattern matches.
\<close>

theorem C4_stripped_view:
  \<open>stripQuotedStrings s = unquoted s
   \<and> stripQuotedStrings ''echo "rm -rf /"'' = ''echo ''
   \<and> fst (validate (rt\<lparr>RegExp_test := js_RegExp_test\<rparr>) io (bash_input ''echo "rm -rf /"'')
            default_policy cwd' (process_start fs))
       = Return \<lparr> allowed = True, reason = None, severity = None, pattern = None, source = None \<rparr>\<close>
proof -
  have m: "mode default_policy = Enforce"
    by (simp add: default_policy_def)
  have b: "\<not> BudgetConfig.enabled (Policy.budget default_policy)"
    by (simp add: default_policy_def)
  obtain st1 where bl:
    \<open>checkBlocklist (rt\<lparr>RegExp_test := js_RegExp_test\<rparr>) (bash_input ''echo "rm -rf /"'')
       default_policy (process_start fs) = (None, st1)\<close>
    using echo_quoted_blocklist [of rt fs]
    by (cases \<open>checkBlocklist (rt\<lparr>RegExp_test := js_RegExp_test\<rparr>)
                 (bash_input ''echo "rm -rf /"'') default_policy (process_start fs)\<close>) simp
  have \<open>fst (validate (rt\<lparr>RegExp_test := js_RegExp_test\<rparr>) io
               (bash_input ''echo "rm -rf /"'') default_policy cwd' (process_start fs))
        = Return (allow_result None)\<close>
    by (simp add: validate_def bash_not_allowlisted_by_default bash_passes_scope m bl
        checkBudget_def b Let_def)
  moreover have \<open>stripQuotedStrings ''echo "rm -rf /"'' = ''echo ''\<close>
    by code_simp
  ultimately show ?thesis
    by (simp add: stripQuotedStrings_def [of s] strip_loop_spec allow_result_def)
qed

subsection \<open>Order of the gates\<close>

lemma read_not_allowlisted_by_default:
  "\<not> checkAllowlist rt (file_input ''Read'' p) default_policy"
  by (simp add: checkAllowlist_def field_eval default_policy_def)

lemma id_rsa_scope:
  "checkScope rt (file_input ''Read'' ''/etc/id_rsa'') default_policy ''/home/u/proj''
   = Some \<lparr> allowed = False, reason = Some ''Path in denied scope: /etc'', severity = Some High,
            pattern = Some ''/etc'', source = Some SrcScope \<rparr>"
  by (simp add: checkScope_def field_eval path_eval default_policy_def Let_def)

lemma id_rsa_blocklist:
  "fst (checkBlocklist (rt\<lparr>RegExp_test := js_RegExp_test\<rparr>) (file_input ''Read'' ''/etc/id_rsa'')
          default_policy (process_start fs))
   = Some \<lparr> allowed = False, reason = Some ''Private key file'', severity = Some Critical,
            pattern = Some (fst re_key_file), source = Some SrcBlocklist \<rparr>"
  by (simp add: checkBlocklist_def getPatterns_def process_start_def field_eval Let_def
      file_match_def compilePatterns_def bundle_defs rx_eval blocked_def)

text \<open>
  C2.  When the mode is not \<^verbatim>\<open>off\<close>, \<^verbatim>\<open>validate\<close> returns the verdict of the first gate
  that has one, in the order allowlist, scope, blocklist, budget.  An allowlist hit
  returns allow with source \<^verbatim>\<open>allowlist\<close> and leaves the state as it was: no later gate
  runs.  Without it, a deny of the scope gate is returned (source \<^verbatim>\<open>scope\<close>), whatever
  the blocklist would say; without that, a deny of the blocklist; without that, a breach
  of the budget (source \<^verbatim>\<open>budget\<close>, or the process exits through the kill switch);
  otherwise allow.  In audit mode the deny comes back with \<^verbatim>\<open>allowed = true\<close>.  In
  particular, where the scope gate and the blocklist gate both deny, the source is
  \<^verbatim>\<open>scope\<close>.
\<close>

theorem C2_pipeline_order:
  assumes "mode policy \<noteq> Off"
  shows "(checkAllowlist rt input' policy \<longrightarrow>
            validate rt io input' policy cwd' st
              = (Return \<lparr> allowed = True, reason = None, severity = None, pattern = None,
                          source = Some SrcAllowlist \<rparr>, st))
       \<and> (\<not> checkAllowlist rt input' policy \<longrightarrow>
           (case checkScope rt input' policy cwd' of
              Some scopeResult \<Rightarrow>
                validate rt io input' policy cwd' st
                  = (Return (scopeResult\<lparr>allowed := (mode policy = Audit)\<rparr>), st)
                \<and> source scopeResult = Some SrcScope
            | None \<Rightarrow>
               (case checkBlocklist rt input' policy st of
                  (Some blocklistResult, st1) \<Rightarrow>
                    validate rt io input' policy cwd' st
                      = (Return (blocklistResult\<lparr>allowed := (mode policy = Audit)\<rparr>), st1)
                    \<and> source blocklistResult = Some SrcBlocklist
                | (None, st1) \<Rightarrow>
                   (case checkBudget rt policy cwd' (cost_read io) st1 of
                      (budgetState, st2) \<Rightarrow>
                        if exceeded budgetState then
                          (case fst (validate rt io input' policy cwd' st) of
                             Return result \<Rightarrow>
                               result = \<lparr> allowed = (mode policy = Audit),
                                          reason = breach_reason budgetState,
                                          severity = Some High, pattern = None,
                                          source = Some SrcBudget \<rparr>
                           | Exit code msg \<Rightarrow>
                               mode policy = Enforce
                               \<and> kill (shouldKill policy (budget_result budgetState) budgetState))
                        else
                          validate rt io input' policy cwd' st
                            = (Return \<lparr> allowed = True, reason = None, severity = None,
                                        pattern = None, source = None \<rparr>, st2)))))
       \<and> (\<not> checkAllowlist rt input' policy \<and> checkScope rt input' policy cwd' \<noteq> None
            \<and> fst (checkBlocklist rt input' policy st) \<noteq> None \<longrightarrow>
           (\<exists>result. fst (validate rt io input' policy cwd' st) = Return result
                      \<and> source result = Some SrcScope))"
proof -
  have allow: "checkAllowlist rt input' policy \<longrightarrow>
            validate rt io input' policy cwd' st
              = (Return \<lparr> allowed = True, reason = None, severity = None, pattern = None,
                          source = Some SrcAllowlist \<rparr>, st)"
    using assms by (simp add: validate_allowlist allow_result_def)
  have both: "\<exists>result. fst (validate rt io input' policy cwd' st) = Return result
                      \<and> source result = Some SrcScope"
    if na: "\<not> checkAllowlist rt input' policy" and sc: "checkScope rt input' policy cwd' \<noteq> None"
  proof -
    obtain r where r: "checkScope rt input' policy cwd' = Some r"
      using sc by auto
    show ?thesis
      using validate_scope [OF assms na r] checkScope_deny [OF r] by simp
  qed
  have rest: "case checkScope rt input' policy cwd' of
              Some scopeResult \<Rightarrow>
                validate rt io input' policy cwd' st
                  = (Return (scopeResult\<lparr>allowed := (mode policy = Audit)\<rparr>), st)
                \<and> source scopeResult = Some SrcScope
            | None \<Rightarrow>
               (case checkBlocklist rt input' policy st of
                  (Some blocklistResult, st1) \<Rightarrow>
                    validate rt io input' policy cwd' st
                      = (Return (blocklistResult\<lparr>allowed := (mode policy = Audit)\<rparr>), st1)
                    \<and> source blocklistResult = Some SrcBlocklist
                | (None, st1) \<Rightarrow>
                   (case checkBudget rt policy cwd' (cost_read io) st1 of
                      (budgetState, st2) \<Rightarrow>
                        if exceeded budgetState then
                          (case fst (validate rt io input' policy cwd' st) of
                             Return result \<Rightarrow>
                               result = \<lparr> allowed = (mode policy = Audit),
                                          reason = breach_reason budgetState,
                                          severity = Some High, pattern = None,
                                          source = Some SrcBudget \<rparr>
                           | Exit code msg \<Rightarrow>
                               mode policy = Enforce
                               \<and> kill (shouldKill policy (budget_result budgetState) budgetState))
                        else
                          validate rt io input' policy cwd' st
                            = (Return \<lparr> allowed = True, reason = None, severity = None,
                                        pattern = None, source = None \<rparr>, st2)))"
    if na: "\<not> checkAllowlist rt input' policy"
  proof (cases "checkScope rt input' policy cwd'")
    case (Some r)
    then show ?thesis
      using validate_scope [OF assms na Some] checkScope_deny [OF Some] by simp
  next
    case None
    obtain bl st1 where bl: "checkBlocklist rt input' policy st = (bl, st1)"
      by (cases "checkBlocklist rt input' policy st")
    show ?thesis
    proof (cases bl)
      case (Some r)
      then show ?thesis
        using None bl validate_blocklist [OF assms na None bl [unfolded Some]]
          checkBlocklist_deny [OF bl [unfolded Some]] by simp
    next
      case bnone: None
      obtain b st2 where bu: "checkBudget rt policy cwd' (cost_read io) st1 = (b, st2)"
        by (cases "checkBudget rt policy cwd' (cost_read io) st1")
      show ?thesis
      proof (cases "exceeded b")
        case False
        then show ?thesis
          using None bl bnone bu
            validate_budget_ok [OF assms na None bl [unfolded bnone] bu False]
          by (simp add: allow_result_def)
      next
        case True
        show ?thesis
        proof (cases "mode policy")
          case Enforce
          then show ?thesis
            using None bl bnone bu True
              validate_budget_enforce [OF Enforce na None bl [unfolded bnone] bu True]
            by (simp add: budget_result_def executeKill_def)
        next
          case Audit
          then show ?thesis
            using None bl bnone bu True
              validate_budget_audit [OF Audit na None bl [unfolded bnone] bu True]
            by (simp add: budget_result_def)
        next
          case Off
          then show ?thesis using assms by simp
        qed
      qed
    qed
  qed
  show ?thesis using allow rest both by blast
qed

theorem C2_pipeline_order_witness:
  "\<forall>rt io fs.
     mode default_policy \<noteq> Off
     \<and> \<not> checkAllowlist (rt\<lparr>RegExp_test := js_RegExp_test\<rparr>) (file_input ''Read'' ''/etc/id_rsa'')
           default_policy
     \<and> checkScope (rt\<lparr>RegExp_test := js_RegExp_test\<rparr>) (file_input ''Read'' ''/etc/id_rsa'')
         default_policy ''/home/u/proj'' \<noteq> None
     \<and> fst (checkBlocklist (rt\<lparr>RegExp_test := js_RegExp_test\<rparr>)
              (file_input ''Read'' ''/etc/id_rsa'') default_policy (process_start fs)) \<noteq> None
     \<and> validate (rt\<lparr>RegExp_test := js_RegExp_test\<rparr>) io (file_input ''Read'' ''/etc/id_rsa'')
         default_policy ''/home/u/proj'' (process_start fs)
       = (Return \<lparr> allowed = False, reason = Some ''Path in denied scope: /etc'',
                   severity = Some High, pattern = Some ''/etc'', source = Some SrcScope \<rparr>,
          process_start fs)"
proof (intro allI)
  fix rt io fs
  show "mode default_policy \<noteq> Off
     \<and> \<not> checkAllowlist (rt\<lparr>RegExp_test := js_RegExp_test\<rparr>) (file_input ''Read'' ''/etc/id_rsa'')
           default_policy
     \<and> checkScope (rt\<lparr>RegExp_test := js_RegExp_test\<rparr>) (file_input ''Read'' ''/etc/id_rsa'')
         default_policy ''/home/u/proj'' \<noteq> None
     \<and> fst (checkBlocklist (rt\<lparr>RegExp_test := js_RegExp_test\<rparr>)
              (file_input ''Read'' ''/etc/id_rsa'') default_policy (process_start fs)) \<noteq> None
     \<and> validate (rt\<lparr>RegExp_test := js_RegExp_test\<rparr>) io (file_input ''Read'' ''/etc/id_rsa'')
         default_policy ''/home/u/proj'' (process_start fs)
       = (Return \<lparr> allowed = False, reason = Some ''Path in denied scope: /etc'',
                   severity = Some High, pattern = Some ''/etc'', source = Some SrcScope \<rparr>,
          process_start fs)"
    using C2_pipeline_order [of default_policy "rt\<lparr>RegExp_test := js_RegExp_test\<rparr>"
        "file_input ''Read'' ''/etc/id_rsa''" io "''/home/u/proj''" "process_start fs"]
    by (simp add: default_mode read_not_allowlisted_by_default id_rsa_scope id_rsa_blocklist)
qed

subsection \<open>Audit mode and off mode\<close>

lemma validate_audit_enforce:
  "\<exists>ra. fst (validate rt io input' (policy\<lparr>mode := Audit\<rparr>) cwd' st) = Return ra \<and> allowed ra
     \<and> (case fst (validate rt io input' (policy\<lparr>mode := Enforce\<rparr>) cwd' st) of
          Return re \<Rightarrow> ra = re\<lparr>allowed := True\<rparr>
        | Exit code msg \<Rightarrow>
            ra = (budget_result (fst (checkBudget rt policy cwd' (cost_read io)
                                        (snd (checkBlocklist rt input' policy st)))))
                 \<lparr>allowed := True\<rparr>)"
proof (cases "checkAllowlist rt input' policy")
  case True
  then show ?thesis by (simp add: validate_def gates_ignore_mode allow_result_def)
next
  case na: False
  show ?thesis
  proof (cases "checkScope rt input' policy cwd'")
    case (Some r)
    then show ?thesis using na by (simp add: validate_def gates_ignore_mode)
  next
    case None
    obtain bl st1 where bl: "checkBlocklist rt input' policy st = (bl, st1)"
      by (cases "checkBlocklist rt input' policy st")
    show ?thesis
    proof (cases bl)
      case (Some r)
      then show ?thesis using na None bl by (simp add: validate_def gates_ignore_mode)
    next
      case bnone: None
      obtain b st2 where bu: "checkBudget rt policy cwd' (cost_read io) st1 = (b, st2)"
        by (cases "checkBudget rt policy cwd' (cost_read io) st1")
      show ?thesis using na None bl bnone bu
        by (simp add: validate_def gates_ignore_mode allow_result_def Let_def executeKill_def
            budget_result_def)
    qed
  qed
qed

lemma rm_rf_verdict:
  "bash_verdict (compilePatterns rx_only default_policy) ''rm -rf /''
   = Some \<lparr> allowed = False, reason = Some ''Forced file deletion'', severity = Some Critical,
            pattern = Some (fst re_rm_force), source = Some SrcBlocklist \<rparr>"
  by code_simp

lemma rm_rf_blocklist:
  "fst (checkBlocklist (rt\<lparr>RegExp_test := js_RegExp_test\<rparr>) (bash_input ''rm -rf /'')
          default_policy (process_start fs))
   = Some \<lparr> allowed = False, reason = Some ''Forced file deletion'', severity = Some Critical,
            pattern = Some (fst re_rm_force), source = Some SrcBlocklist \<rparr>"
  by (simp add: checkBlocklist_bash getPatterns_start compile_js rm_rf_verdict)

lemma rm_rf_enforce:
  "fst (validate (rt\<lparr>RegExp_test := js_RegExp_test\<rparr>) io (bash_input ''rm -rf /'')
          (default_policy\<lparr>mode := Enforce\<rparr>) cwd' (process_start fs))
   = Return \<lparr> allowed = False, reason = Some ''Forced file deletion'', severity = Some Critical,
              pattern = Some (fst re_rm_force), source = Some SrcBlocklist \<rparr>"
proof -
  obtain bl st1 where bl:
    "checkBlocklist (rt\<lparr>RegExp_test := js_RegExp_test\<rparr>) (bash_input ''rm -rf /'')
       default_policy (process_start fs) = (bl, st1)"
    by (cases "checkBlocklist (rt\<lparr>RegExp_test := js_RegExp_test\<rparr>) (bash_input ''rm -rf /'')
                 default_policy (process_start fs)")
  then have "bl = Some \<lparr> allowed = False, reason = Some ''Forced file deletion'',
                         severity = Some Critical, pattern = Some (fst re_rm_force),
                         source = Some SrcBlocklist \<rparr>"
    using rm_rf_blocklist [of rt fs] by simp
  then show ?thesis
    using bl
    by (simp add: validate_def gates_ignore_mode bash_not_allowlisted_by_default bash_passes_scope)
qed

text \<open>
  C3.  In audit mode \<^verbatim>\<open>validate\<close> always returns, with \<^verbatim>\<open>allowed = true\<close>, and what it
  returns is what enforce mode produces on the same input and state with only \<^verbatim>\<open>allowed\<close>
  changed: source, severity, reason and pattern of a deny by the scope, blocklist or
  budget step are kept.  Where enforce mode ends the process on a budget breach, the
  result it produced before, and wrote to the audit file, is the budget result, and audit
  mode returns that with \<^verbatim>\<open>allowed = true\<close>.  In off mode \<^verbatim>\<open>validate\<close> returns allow with
  reason, severity, pattern and source all null and leaves the state untouched: no gate
  is evaluated.
\<close>

theorem C3_audit_and_off:
  "(mode policy = Audit \<longrightarrow>
      (\<exists>ra. fst (validate rt io input' policy cwd' st) = Return ra \<and> allowed ra
         \<and> (case fst (validate rt io input' (policy\<lparr>mode := Enforce\<rparr>) cwd' st) of
              Return re \<Rightarrow> ra = re\<lparr>allowed := True\<rparr>
            | Exit code msg \<Rightarrow>
                ra = (budget_result (fst (checkBudget rt policy cwd' (cost_read io)
                                            (snd (checkBlocklist rt input' policy st)))))
                     \<lparr>allowed := True\<rparr>)))
   \<and> (mode policy = Off \<longrightarrow>
        validate rt io input' policy cwd' st
          = (Return \<lparr> allowed = True, reason = None, severity = None, pattern = None,
                      source = None \<rparr>, st))"
proof (intro conjI impI)
  assume a: "mode policy = Audit"
  then have "policy\<lparr>mode := Audit\<rparr> = policy"
    by simp
  then show "\<exists>ra. fst (validate rt io input' policy cwd' st) = Return ra \<and> allowed ra
         \<and> (case fst (validate rt io input' (policy\<lparr>mode := Enforce\<rparr>) cwd' st) of
              Return re \<Rightarrow> ra = re\<lparr>allowed := True\<rparr>
            | Exit code msg \<Rightarrow>
                ra = (budget_result (fst (checkBudget rt policy cwd' (cost_read io)
                                            (snd (checkBlocklist rt input' policy st)))))
                     \<lparr>allowed := True\<rparr>)"
    using validate_audit_enforce [of rt io input' policy cwd' st] by simp
next
  assume "mode policy = Off"
  then show "validate rt io input' policy cwd' st
          = (Return \<lparr> allowed = True, reason = None, severity = None, pattern = None,
                      source = None \<rparr>, st)"
    by (simp add: validate_def allow_result_def)
qed

theorem C3_audit_and_off_witness:
  "\<forall>rt io cwd' fs.
     mode (default_policy\<lparr>mode := Audit\<rparr>) = Audit
     \<and> fst (validate (rt\<lparr>RegExp_test := js_RegExp_test\<rparr>) io (bash_input ''rm -rf /'')
              (default_policy\<lparr>mode := Enforce\<rparr>) cwd' (process_start fs))
         = Return \<lparr> allowed = False, reason = Some ''Forced file deletion'',
                    severity = Some Critical, pattern = Some (fst re_rm_force),
                    source = Some SrcBlocklist \<rparr>
     \<and> fst (validate (rt\<lparr>RegExp_test := js_RegExp_test\<rparr>) io (bash_input ''rm -rf /'')
              (default_policy\<lparr>mode := Audit\<rparr>) cwd' (process_start fs))
         = Return \<lparr> allowed = True, reason = Some ''Forced file deletion'',
                    severity = Some Critical, pattern = Some (fst re_rm_force),
                    source = Some SrcBlocklist \<rparr>
     \<and> mode (default_policy\<lparr>mode := Off\<rparr>) = Off
     \<and> validate rt io (bash_input ''rm -rf /'') (default_policy\<lparr>mode := Off\<rparr>) cwd'
          (process_start fs)
         = (Return \<lparr> allowed = True, reason = None, severity = None, pattern = None,
                     source = None \<rparr>, process_start fs)"
proof (intro allI)
  fix rt io cwd' fs
  show "mode (default_policy\<lparr>mode := Audit\<rparr>) = Audit
     \<and> fst (validate (rt\<lparr>RegExp_test := js_RegExp_test\<rparr>) io (bash_input ''rm -rf /'')
              (default_policy\<lparr>mode := Enforce\<rparr>) cwd' (process_start fs))
         = Return \<lparr> allowed = False, reason = Some ''Forced file deletion'',
                    severity = Some Critical, pattern = Some (fst re_rm_force),
                    source = Some SrcBlocklist \<rparr>
     \<and> fst (validate (rt\<lparr>RegExp_test := js_RegExp_test\<rparr>) io (bash_input ''rm -rf /'')
              (default_policy\<lparr>mode := Audit\<rparr>) cwd' (process_start fs))
         = Return \<lparr> allowed = True, reason = Some ''Forced file deletion'',
                    severity = Some Critical, pattern = Some (fst re_rm_force),
                    source = Some SrcBlocklist \<rparr>
     \<and> mode (default_policy\<lparr>mode := Off\<rparr>) = Off
     \<and> validate rt io (bash_input ''rm -rf /'') (default_policy\<lparr>mode := Off\<rparr>) cwd'
          (process_start fs)
         = (Return \<lparr> allowed = True, reason = None, severity = None, pattern = None,
                     source = None \<rparr>, process_start fs)"
    using C3_audit_and_off [of "default_policy\<lparr>mode := Audit\<rparr>"
        "rt\<lparr>RegExp_test := js_RegExp_test\<rparr>" io "bash_input ''rm -rf /''" cwd' "process_start fs"]
      C3_audit_and_off [of "default_policy\<lparr>mode := Off\<rparr>" rt io "bash_input ''rm -rf /''" cwd'
        "process_start fs"]
      rm_rf_enforce [of rt io cwd' fs]
    by auto
qed

subsection \<open>Side effects of \<^verbatim>\<open>validateAndAudit\<close> in off mode\<close>

lemma writeAuditEntry_appends:
  assumes "AuditConfig.enabled (audit policy)"
  shows "\<exists>e. files (writeAuditEntry rt io input' result policy cwd' b st)
           = (files st)(getAuditPath rt policy cwd' \<mapsto>
                (if shouldRotate policy io (getAuditPath rt policy cwd') st then []
                 else (case files st (getAuditPath rt policy cwd') of None \<Rightarrow> [] | Some ls \<Rightarrow> ls))
                @ [Entry e])
         \<and> AuditEntryWithoutHash.allowed e = allowed result
         \<and> actionCount (writeAuditEntry rt io input' result policy cwd' b st) = actionCount st"
  using assms
  by (auto simp: writeAuditEntry_def Let_def rotateAuditFile_def resume_from_file_def
      with_hash_def AuditEntryWithoutHash.defs AuditEntry.defs
      split: option.splits line.splits intro!: exI)

text \<open>
  C10.  In off mode with the audit enabled, \<^verbatim>\<open>validateAndAudit\<close> returns the allow of
  \<^verbatim>\<open>validate\<close> and still has two effects: the action counter is one higher, through its
  own call of \<^verbatim>\<open>checkBudget\<close>, and the audit file holds one more line, an entry with
  \<^verbatim>\<open>allowed = true\<close>, after the lines it had (after none, when the file did not exist or
  was rotated away by this call).
\<close>

theorem C10_off_mode_side_effects:
  assumes "mode policy = Off" and "AuditConfig.enabled (audit policy)"
  shows "\<exists>st' e. validateAndAudit rt io input' policy cwd' st
                = (Return \<lparr> allowed = True, reason = None, severity = None, pattern = None,
                            source = None \<rparr>, st')
          \<and> actionCount st' = actionCount st + 1
          \<and> files st' = (files st)(getAuditPath rt policy cwd' \<mapsto>
                (if shouldRotate policy (audit_io2 io) (getAuditPath rt policy cwd') st then []
                 else (case files st (getAuditPath rt policy cwd') of None \<Rightarrow> [] | Some ls \<Rightarrow> ls))
                @ [Entry e])
          \<and> AuditEntryWithoutHash.allowed e"
proof -
  have v: "validate rt (validate_io io) input' policy cwd' st = (Return (allow_result None), st)"
    using assms(1) by (simp add: validate_def)
  obtain b st2 where b: "checkBudget rt policy cwd' (cost_read2 io) st = (b, st2)"
    by (cases "checkBudget rt policy cwd' (cost_read2 io) st")
  have st2: "actionCount st2 = actionCount st + 1" "files st2 = files st"
    using b by (auto simp: checkBudget_def Let_def split: if_splits option.splits)
  have rot: "shouldRotate policy io' p st2 = shouldRotate policy io' p st" for io' p
    by (simp add: shouldRotate_def st2)
  show ?thesis
    using writeAuditEntry_appends [OF assms(2), of rt "audit_io2 io" input' "allow_result None" cwd'
        "Some (budget_snapshot policy b)" st2]
    by (auto simp: validateAndAudit_def v b st2 rot allow_result_def Let_def)
qed

theorem C10_off_mode_side_effects_witness:
  "\<forall>rt io.
     mode (default_policy\<lparr>mode := Off\<rparr>) = Off
     \<and> AuditConfig.enabled (audit (default_policy\<lparr>mode := Off\<rparr>))
     \<and> (\<exists>st' e. validateAndAudit rt io (bash_input ''rm -rf /'') (default_policy\<lparr>mode := Off\<rparr>)
                    ''/home/u/proj'' (process_start (\<lambda>p. None))
                  = (Return \<lparr> allowed = True, reason = None, severity = None, pattern = None,
                              source = None \<rparr>, st')
              \<and> actionCount st' = 1
              \<and> files st' = (\<lambda>p. None)(''/home/u/proj/.guardian/audit.jsonl'' \<mapsto> [Entry e])
              \<and> AuditEntryWithoutHash.allowed e)"
proof (intro allI)
  fix rt io
  have p: "getAuditPath rt (default_policy\<lparr>mode := Off\<rparr>) ''/home/u/proj''
           = ''/home/u/proj/.guardian/audit.jsonl''"
    by (simp add: getAuditPath_def path_eval default_policy_def)
  have e: "AuditConfig.enabled (audit default_policy)"
    by (simp add: default_policy_def)
  show "mode (default_policy\<lparr>mode := Off\<rparr>) = Off
     \<and> AuditConfig.enabled (audit (default_policy\<lparr>mode := Off\<rparr>))
     \<and> (\<exists>st' e. validateAndAudit rt io (bash_input ''rm -rf /'') (default_policy\<lparr>mode := Off\<rparr>)
                    ''/home/u/proj'' (process_start (\<lambda>p. None))
                  = (Return \<lparr> allowed = True, reason = None, severity = None, pattern = None,
                              source = None \<rparr>, st')
              \<and> actionCount st' = 1
              \<and> files st' = (\<lambda>p. None)(''/home/u/proj/.guardian/audit.jsonl'' \<mapsto> [Entry e])
              \<and> AuditEntryWithoutHash.allowed e)"
    using C10_off_mode_side_effects [of "default_policy\<lparr>mode := Off\<rparr>" rt io
        "bash_input ''rm -rf /''" "''/home/u/proj''" "process_start (\<lambda>p. None)"]
    by (simp add: p e shouldRotate_def process_start_def)
qed

subsection \<open>The scope gate\<close>

lemma get_substitution_plain:
  "CHR ''$'' \<notin> set replacement \<Longrightarrow> get_substitution m b a replacement = replacement"
  by (induction m b a replacement rule: get_substitution.induct) auto

lemma js_replace_first:
  "CHR ''$'' \<notin> set replacement \<Longrightarrow> js_replace s pat replacement = replace_first pat replacement s"
  by (simp add: js_replace_def replace_first_def get_substitution_plain split: option.splits)

lemma find_Some_ex: "(find P xs \<noteq> None) = (\<exists>x\<in>set xs. P x)"
  by (induction xs) auto

lemma checkScope_cases:
  assumes "CHR ''$'' \<notin> set cwd'"
  shows "checkScope rt input' policy cwd' =
     (let filePath = string_or_empty (tool_input input') ''file_path'';
          resolved = path_resolve rt cwd' filePath in
      if filePath = [] then None
      else case find (\<lambda>denied. prefix denied resolved) (denied_paths (scope policy)) of
             Some denied \<Rightarrow>
               Some \<lparr> allowed = False, reason = Some (''Path in denied scope: '' @ denied),
                      severity = Some High, pattern = Some denied, source = Some SrcScope \<rparr>
           | None \<Rightarrow>
               if \<not> allow_outside_cwd (scope policy)
                  \<and> \<not> list_ex (\<lambda>p. prefix (replace_first ''{cwd}'' cwd' p) resolved)
                              (allowed_paths (scope policy))
               then Some \<lparr> allowed = False,
                           reason = Some (''Path outside allowed scope: '' @ resolved),
                           severity = Some High, pattern = Some cwd', source = Some SrcScope \<rparr>
               else None)"
  using assms
  by (auto simp: checkScope_def Let_def js_replace_first list_ex_iff split: option.splits)

text \<open>
  C7 as stated fails where an allowed path names \<^verbatim>\<open>{cwd}\<close> more than once.  With the
  working directory \<^verbatim>\<open>/w\<close> and the one allowed path \<^verbatim>\<open>{cwd}{cwd}\<close>, the path
  \<^verbatim>\<open>/w/w/f\<close> begins with the expansion in which every \<^verbatim>\<open>{cwd}\<close> is substituted, no
  denied path is configured, and the scope gate denies all the same: \<^verbatim>\<open>String.replace\<close>
  with a string pattern substitutes the first occurrence only.
\<close>

lemma twice_scope:
  "checkScope rt (file_input ''Read'' ''/w/w/f'') twice_cwd_policy ''/w''
         = Some \<lparr> allowed = False, reason = Some ''Path outside allowed scope: /w/w/f'',
                  severity = Some High, pattern = Some ''/w'', source = Some SrcScope \<rparr>"
  by (simp add: checkScope_def field_eval path_eval twice_cwd_policy_def Let_def js_replace_def)

theorem C7_every_cwd_counterexample:
  "\<forall>rt. string_or_empty (tool_input (file_input ''Read'' ''/w/w/f'')) ''file_path'' = ''/w/w/f''
     \<and> path_resolve rt ''/w'' ''/w/w/f'' = ''/w/w/f''
     \<and> denied_paths (scope twice_cwd_policy) = []
     \<and> allowed_paths (scope twice_cwd_policy) = [''{cwd}{cwd}'']
     \<and> replace_all ''{cwd}'' ''/w'' ''{cwd}{cwd}'' = ''/w/w''
     \<and> prefix ''/w/w'' ''/w/w/f''
     \<and> checkScope rt (file_input ''Read'' ''/w/w/f'') twice_cwd_policy ''/w''
         = Some \<lparr> allowed = False, reason = Some ''Path outside allowed scope: /w/w/f'',
                  severity = Some High, pattern = Some ''/w'', source = Some SrcScope \<rparr>"
  by (simp add: twice_scope) (simp add: field_eval path_eval twice_cwd_policy_def)

text \<open>
  C7, amended.  For a working directory without a dollar sign: a request without a
  \<^verbatim>\<open>file_path\<close> passes the scope gate; otherwise the path is resolved against the
  working directory, and the gate denies with source \<^verbatim>\<open>scope\<close> and severity \<^verbatim>\<open>high\<close> if
  the resolved path begins with an entry of \<^verbatim>\<open>denied_paths\<close>; else it passes when
  \<^verbatim>\<open>allow_outside_cwd\<close> is set; else it passes exactly if the resolved path begins with
  an allowed path in which the first \<^verbatim>\<open>{cwd}\<close> is replaced by the working directory, and
  denies with source \<^verbatim>\<open>scope\<close> and severity \<^verbatim>\<open>high\<close> if not.  With the allowed paths
  \<^verbatim>\<open>["{cwd}"]\<close>, \<^verbatim>\<open>allow_outside_cwd = false\<close> and any denied paths in the default policy,
  a \<^verbatim>\<open>Read\<close> of \<^verbatim>\<open>/etc/passwd\<close> from \<^verbatim>\<open>/home/u/proj\<close> is denied with source \<^verbatim>\<open>scope\<close>.
\<close>

theorem C7_scope_gate:
  assumes "CHR ''$'' \<notin> set cwd'"
  shows "(string_or_empty (tool_input input') ''file_path'' = [] \<longrightarrow>
            checkScope rt input' policy cwd' = None)
     \<and> (string_or_empty (tool_input input') ''file_path'' \<noteq> [] \<longrightarrow>
          (if \<exists>denied \<in> set (denied_paths (scope policy)).
                 prefix denied (path_resolve rt cwd' (string_or_empty (tool_input input') ''file_path''))
           then \<exists>r. checkScope rt input' policy cwd' = Some r
                     \<and> \<not> allowed r \<and> source r = Some SrcScope \<and> severity r = Some High
           else if allow_outside_cwd (scope policy) then checkScope rt input' policy cwd' = None
           else if \<exists>p \<in> set (allowed_paths (scope policy)).
                      prefix (replace_first ''{cwd}'' cwd' p)
                        (path_resolve rt cwd' (string_or_empty (tool_input input') ''file_path''))
           then checkScope rt input' policy cwd' = None
           else \<exists>r. checkScope rt input' policy cwd' = Some r
                     \<and> \<not> allowed r \<and> source r = Some SrcScope \<and> severity r = Some High))
     \<and> (\<exists>r. fst (validate rt io (file_input ''Read'' ''/etc/passwd'')
                   (default_policy\<lparr> scope := \<lparr> allowed_paths = [''{cwd}''], denied_paths = denied,
                                                  allow_outside_cwd = False \<rparr> \<rparr>)
                   ''/home/u/proj'' st) = Return r
              \<and> \<not> allowed r \<and> source r = Some SrcScope \<and> severity r = Some High)"
proof (intro conjI impI)
  show "checkScope rt input' policy cwd' = None"
    if "string_or_empty (tool_input input') ''file_path'' = []"
    using that by (simp add: checkScope_def)
next
  assume ne: "string_or_empty (tool_input input') ''file_path'' \<noteq> []"
  show "if \<exists>denied \<in> set (denied_paths (scope policy)).
                 prefix denied (path_resolve rt cwd' (string_or_empty (tool_input input') ''file_path''))
           then \<exists>r. checkScope rt input' policy cwd' = Some r
                     \<and> \<not> allowed r \<and> source r = Some SrcScope \<and> severity r = Some High
           else if allow_outside_cwd (scope policy) then checkScope rt input' policy cwd' = None
           else if \<exists>p \<in> set (allowed_paths (scope policy)).
                      prefix (replace_first ''{cwd}'' cwd' p)
                        (path_resolve rt cwd' (string_or_empty (tool_input input') ''file_path''))
           then checkScope rt input' policy cwd' = None
           else \<exists>r. checkScope rt input' policy cwd' = Some r
                     \<and> \<not> allowed r \<and> source r = Some SrcScope \<and> severity r = Some High"
    using ne find_Some_ex [of "\<lambda>denied. prefix denied (path_resolve rt cwd' (string_or_empty (tool_input input') ''file_path''))" "denied_paths (scope policy)"]
    by (auto simp: checkScope_cases [OF assms] Let_def list_ex_iff split: option.splits)
next
  let ?P = "default_policy\<lparr> scope := \<lparr> allowed_paths = [''{cwd}''], denied_paths = denied,
                                                  allow_outside_cwd = False \<rparr> \<rparr>"
  have d: "CHR ''$'' \<notin> set ''/home/u/proj''" by simp
  have r: "path_resolve rt ''/home/u/proj'' ''/etc/passwd'' = ''/etc/passwd''"
    by (simp add: path_eval)
  have "checkScope rt (file_input ''Read'' ''/etc/passwd'') ?P ''/home/u/proj'' \<noteq> None"
    by (simp add: checkScope_cases [OF d] field_eval Let_def r replace_first_def split: option.splits)
  then obtain x where x: "checkScope rt (file_input ''Read'' ''/etc/passwd'') ?P ''/home/u/proj'' = Some x"
    by auto
  have m: "mode ?P \<noteq> Off" by (simp add: default_policy_def)
  have a: "\<not> checkAllowlist rt (file_input ''Read'' ''/etc/passwd'') ?P"
    by (simp add: checkAllowlist_def field_eval default_policy_def)
  have "mode ?P = Enforce" by (simp add: default_policy_def)
  then have "validate rt io (file_input ''Read'' ''/etc/passwd'') ?P ''/home/u/proj'' st = (Return x, st)"
    using a x by (simp add: validate_def)
  moreover have "\<not> allowed x \<and> source x = Some SrcScope \<and> severity x = Some High"
    using x by (auto simp: checkScope_def Let_def split: if_splits option.splits)
  ultimately show "\<exists>r. fst (validate rt io (file_input ''Read'' ''/etc/passwd'') ?P
                   ''/home/u/proj'' st) = Return r
              \<and> \<not> allowed r \<and> source r = Some SrcScope \<and> severity r = Some High"
    by simp
qed

theorem C7_scope_gate_witness:
  "\<forall>rt. CHR ''$'' \<notin> set ''/home/u/proj''
     \<and> (\<exists>r. checkScope rt (file_input ''Write'' ''/tmp/outside.txt'') default_policy ''/home/u/proj''
               = Some r
             \<and> \<not> allowed r \<and> source r = Some SrcScope \<and> severity r = Some High)
     \<and> checkScope rt (file_input ''Write'' ''src/a.ts'') default_policy ''/home/u/proj'' = None
     \<and> checkScope rt (bash_input ''ls'') default_policy ''/home/u/proj'' = None"
proof (intro allI)
  fix rt
  have d: "CHR ''$'' \<notin> set ''/home/u/proj''" by simp
  show "CHR ''$'' \<notin> set ''/home/u/proj''
     \<and> (\<exists>r. checkScope rt (file_input ''Write'' ''/tmp/outside.txt'') default_policy ''/home/u/proj''
               = Some r
             \<and> \<not> allowed r \<and> source r = Some SrcScope \<and> severity r = Some High)
     \<and> checkScope rt (file_input ''Write'' ''src/a.ts'') default_policy ''/home/u/proj'' = None
     \<and> checkScope rt (bash_input ''ls'') default_policy ''/home/u/proj'' = None"
    using C7_scope_gate [OF d, of "file_input ''Write'' ''/tmp/outside.txt''" rt default_policy]
      C7_scope_gate [OF d, of "file_input ''Write'' ''src/a.ts''" rt default_policy]
      C7_scope_gate [OF d, of "bash_input ''ls''" rt default_policy]
    by (simp add: field_eval path_eval default_policy_def replace_first_def)
qed

subsection \<open>Segments\<close>

lemma split_loop_top_level:
  "dollar_paren_free command \<Longrightarrow>
   split_loop command current depth inSingle inDouble segments
   = top_level_loop command current depth inSingle inDouble segments"
proof (induction command arbitrary: current depth inSingle inDouble segments rule: length_induct)
  case (1 command)
  show ?case
  proof (cases command)
    case Nil
    then show ?thesis by simp
  next
    case (Cons ch rest)
    have free: "dollar_paren_free rest" "dollar_paren_free (tl rest)"
      using "1.prems" Cons by (cases rest; cases "tl rest"; simp)+
    have IH1: "split_loop rest c d s1 s2 segs = top_level_loop rest c d s1 s2 segs"
      for c d s1 s2 segs
      using "1.IH" free(1) Cons by simp
    have IH2: "split_loop (tl rest) c d s1 s2 segs = top_level_loop (tl rest) c d s1 s2 segs"
      for c d s1 s2 segs
      using "1.IH" free(2) Cons by (simp add: less_Suc_eq_le)
    have nd: "(ch = CHR ''$'' \<and> (case rest of [] \<Rightarrow> None | n # x \<Rightarrow> Some n) = Some CHR ''('')
              = False"
      using "1.prems" Cons by (cases rest) auto
    show ?thesis
      by (simp add: Cons IH1 IH2 Let_def nd)
  qed
qed

lemma splitShellCommand_top_level:
  "dollar_paren_free command \<Longrightarrow> splitShellCommand command = top_level_split command"
  by (simp add: splitShellCommand_def top_level_split_def split_loop_top_level)

lemma chain_verdict:
  "bash_verdict (compilePatterns rx_only default_policy) ''echo hi && rm -rf /''
   = Some \<lparr> allowed = False, reason = Some ''Forced file deletion'', severity = Some Critical,
            pattern = Some (fst re_rm_force), source = Some SrcBlocklist \<rparr>"
  by code_simp

lemma second_segment_matches:
  "first_match (map stripQuotedStrings (splitShellCommand ''echo hi && rm -rf /''))
     (CompiledPatterns.commands (compilePatterns rx_only default_policy)) \<noteq> None"
  by code_simp

text \<open>
  C5.  The command \<^verbatim>\<open>echo hi && rm -rf /\<close> is split into its two segments and is denied
  under the default policy.  But \<^verbatim>\<open>splitShellCommand\<close> is not the top-level split for a
  command with a substitution: at \<^verbatim>\<open>$(\<close> it counts the dollar sign and then the
  parenthesis, the one closing parenthesis takes one level back, and the rest of the
  command stays at depth one.  \<^verbatim>\<open>echo $(date); ls\<close> comes back as one segment, where the
  top-level split has two.  (Lemma \<open>splitShellCommand_top_level\<close>: without a \<^verbatim>\<open>$(\<close> in
  the command the two agree.)
\<close>

theorem C5_dollar_paren_counts_twice:
  \<open>splitShellCommand ''echo hi && rm -rf /'' = [''echo hi'', ''rm -rf /'']
   \<and> fst (validate (rt\<lparr>RegExp_test := js_RegExp_test\<rparr>) io (bash_input ''echo hi && rm -rf /'')
            default_policy cwd' (process_start fs))
       = Return \<lparr> allowed = False, reason = Some ''Forced file deletion'',
                  severity = Some Critical, pattern = Some (fst re_rm_force),
                  source = Some SrcBlocklist \<rparr>
   \<and> splitShellCommand ''echo $(date); ls'' = [''echo $(date); ls'']
   \<and> top_level_split ''echo $(date); ls'' = [''echo $(date)'', ''ls'']\<close>
proof -
  have \<open>splitShellCommand ''echo hi && rm -rf /'' = [''echo hi'', ''rm -rf /'']\<close>
    \<open>splitShellCommand ''echo $(date); ls'' = [''echo $(date); ls'']\<close>
    \<open>top_level_split ''echo $(date); ls'' = [''echo $(date)'', ''ls'']\<close>
    by code_simp+
  then show ?thesis
    using validate_bash_eval [OF chain_verdict, of rt io cwd' fs] by simp
qed

subsection \<open>Substitutions\<close>

lemma escaped_quote_verdicts:
  \<open>bash_verdict (compilePatterns rx_only default_policy) (''echo '' @ [backslash] @ ''"$(rm -rf /)'')
     = None\<close>
  \<open>bash_verdict (compilePatterns rx_only default_policy) (''echo '' @ [backslash] @ ''"$(rm -rf /) '')
     = Some \<lparr> allowed = False, reason = Some ''Forced file deletion'', severity = Some Critical,
            pattern = Some (fst re_rm_force), source = Some SrcBlocklist \<rparr>\<close>
  by code_simp+

text \<open>
  C6.  The loop of \<^verbatim>\<open>extractSubcommands\<close> stops one character short: a substitution
  that the last character of the command closes is not returned, the same one followed by
  a blank is.  A closing parenthesis also ends a level that a plain opening parenthesis
  inside the substitution never counted.  The first has a consequence for the pipeline:
  after an escaped double quote, which \<^verbatim>\<open>stripQuotedStrings\<close> takes for an opening one,
  only the substitution bodies are left to match, and
  \<^verbatim>\<open>echo \"$(rm -rf /)\<close> is allowed while the same command with a blank behind it is
  denied.
\<close>

theorem C6_last_character_skipped:
  \<open>extractSubcommands ''echo $(whoami)'' = []
   \<and> extractSubcommands ''echo $(whoami) '' = [''whoami'']
   \<and> extractSubcommands ''$(echo (a) b) '' = [''echo (a'']
   \<and> fst (validate (rt\<lparr>RegExp_test := js_RegExp_test\<rparr>) io
            (bash_input (''echo '' @ [backslash] @ ''"$(rm -rf /)'')) default_policy cwd'
            (process_start fs))
       = Return \<lparr> allowed = True, reason = None, severity = None, pattern = None, source = None \<rparr>
   \<and> fst (validate (rt\<lparr>RegExp_test := js_RegExp_test\<rparr>) io
            (bash_input (''echo '' @ [backslash] @ ''"$(rm -rf /) '')) default_policy cwd'
            (process_start fs))
       = Return \<lparr> allowed = False, reason = Some ''Forced file deletion'',
                  severity = Some Critical, pattern = Some (fst re_rm_force),
                  source = Some SrcBlocklist \<rparr>\<close>
proof -
  have \<open>extractSubcommands ''echo $(whoami)'' = []\<close>
    \<open>extractSubcommands ''echo $(whoami) '' = [''whoami'']\<close>
    \<open>extractSubcommands ''$(echo (a) b) '' = [''echo (a'']\<close>
    by code_simp+
  then show ?thesis
    using validate_bash_eval [OF escaped_quote_verdicts(1), of rt io cwd' fs]
      validate_bash_eval [OF escaped_quote_verdicts(2), of rt io cwd' fs]
    by (simp add: allow_result_def)
qed


subsection \<open>The budget gate and the audit line of a request\<close>

lemma compile_budget_two: "compilePatterns rt budget_two_policy = compilePatterns rt default_policy"
  by (simp add: compilePatterns_def budget_two_policy_def)

lemma echo_test_verdict:
  "bash_verdict (compilePatterns rx_only default_policy) ''echo test'' = None"
  by code_simp

lemma show_digits:
  "show_int 2 = ''2''" "show_nat 3 = ''3''" "show_nat 5 = ''5''"
  by code_simp+

lemma budget_two_facts:
  "mode budget_two_policy = Enforce"
  "\<not> checkAllowlist rt (bash_input command) budget_two_policy"
  "AuditConfig.enabled (audit budget_two_policy)"
  "getAuditPath rt budget_two_policy ''/w'' = audit_file"
  "\<not> shouldRotate budget_two_policy quiet_audit_io p st"
  "\<not> kill (shouldKill budget_two_policy (limit_exceeded n) b)"
  by (simp_all add: budget_two_policy_def default_policy_def checkAllowlist_def field_eval
      getAuditPath_def path_eval shouldRotate_def quiet_audit_io_def shouldKill_def
      limit_exceeded_def Let_def split: option.splits)

lemma echo_test_blocklist:
  assumes "compiledPatterns st = None
           \<or> compiledPatterns st = Some (compilePatterns rx_only default_policy)"
  shows "checkBlocklist (rt\<lparr>RegExp_test := js_RegExp_test\<rparr>) (bash_input ''echo test'')
           budget_two_policy st
         = (None, st\<lparr>compiledPatterns := Some (compilePatterns rx_only default_policy)\<rparr>)"
  using assms
  by (auto simp: checkBlocklist_bash getPatterns_def compile_js compile_budget_two Let_def
      echo_test_verdict)

lemma checkBudget_counts:
  "actionCount (snd (checkBudget rt policy cwd' cost st)) = actionCount st + 1
   \<and> BudgetState.action_count (fst (checkBudget rt policy cwd' cost st)) = actionCount st + 1
   \<and> compiledPatterns (snd (checkBudget rt policy cwd' cost st)) = compiledPatterns st
   \<and> files (snd (checkBudget rt policy cwd' cost st)) = files st"
  by (simp add: checkBudget_def Let_def split: option.split)

lemma checkBudget_two:
  "checkBudget rt budget_two_policy cwd' cost st =
     (\<lparr> BudgetState.action_count = actionCount st + 1, session_cost_usd = None,
         exceeded = (actionCount st + 1 > 2),
         breach_reason = (if actionCount st + 1 > 2
                          then Some (''Action limit exceeded: '' @ show_nat (actionCount st + 1) @ ''/2'')
                          else None) \<rparr>,
      st\<lparr>actionCount := actionCount st + 1\<rparr>)"
  by (simp add: checkBudget_def budget_two_policy_def Let_def show_digits)

lemma budget_result_limit:
  "budget_result \<lparr> BudgetState.action_count = n, session_cost_usd = None, exceeded = True,
         breach_reason = Some (''Action limit exceeded: '' @ show_nat n @ ''/2'') \<rparr>
   = limit_exceeded n"
  by (simp add: budget_result_def limit_exceeded_def)

lemma writeAuditEntry_frame:
  "actionCount (writeAuditEntry rt io input' result policy cwd' b st) = actionCount st"
  "compiledPatterns (writeAuditEntry rt io input' result policy cwd' b st) = compiledPatterns st"
  by (auto simp: writeAuditEntry_def Let_def rotateAuditFile_def resume_from_file_def
      split: option.splits line.splits)

lemma writeAuditEntry_quiet:
  "length (lines_of (files (writeAuditEntry rt quiet_audit_io input' result budget_two_policy
                               ''/w'' b st) audit_file))
   = length (lines_of (files st audit_file)) + 1"
  using writeAuditEntry_appends [OF budget_two_facts(3), of rt quiet_audit_io input' result "''/w''" b st]
  by (auto simp: budget_two_facts lines_of_def)

lemma no_kill_budget_two:
  "severity r \<noteq> Some Critical \<Longrightarrow> kill (shouldKill budget_two_policy r b) = False"
  by (simp add: shouldKill_def budget_two_policy_def default_policy_def Let_def)

lemma echo_test_validate:
  assumes "compiledPatterns st = None
           \<or> compiledPatterns st = Some (compilePatterns rx_only default_policy)"
    and "audit_io io = quiet_audit_io"
  shows "\<exists>st'. validate (rt\<lparr>RegExp_test := js_RegExp_test\<rparr>) io (bash_input ''echo test'')
                  budget_two_policy ''/w'' st
            = (Return (if actionCount st + 1 > 2 then limit_exceeded (actionCount st + 1)
                       else allow_result None), st')
         \<and> actionCount st' = actionCount st + 1
         \<and> compiledPatterns st' = Some (compilePatterns rx_only default_policy)
         \<and> length (lines_of (files st' audit_file))
             = length (lines_of (files st audit_file)) + (if actionCount st + 1 > 2 then 1 else 0)"
  by (simp add: validate_def budget_two_facts bash_passes_scope echo_test_blocklist [OF assms(1)]
      checkBudget_two assms(2) Let_def limit_exceeded_def no_kill_budget_two
      writeAuditEntry_frame writeAuditEntry_quiet)

lemma echo_test_validateAndAudit:
  assumes "compiledPatterns st = None
           \<or> compiledPatterns st = Some (compilePatterns rx_only default_policy)"
  shows "\<exists>st'. validateAndAudit (rt\<lparr>RegExp_test := js_RegExp_test\<rparr>) quiet_io
                  (bash_input ''echo test'') budget_two_policy ''/w'' st
            = (Return (if actionCount st + 1 > 2 then limit_exceeded (actionCount st + 1)
                       else allow_result None), st')
         \<and> actionCount st' = actionCount st + 2
         \<and> compiledPatterns st' = Some (compilePatterns rx_only default_policy)
         \<and> length (lines_of (files st' audit_file))
             = length (lines_of (files st audit_file)) + (if actionCount st + 1 > 2 then 2 else 1)"
proof -
  have q: "audit_io (validate_io quiet_io) = quiet_audit_io" "audit_io2 quiet_io = quiet_audit_io"
    by (simp_all add: quiet_io_def)
  obtain st1 where st1:
    "validate (rt\<lparr>RegExp_test := js_RegExp_test\<rparr>) (validate_io quiet_io) (bash_input ''echo test'')
        budget_two_policy ''/w'' st
      = (Return (if actionCount st + 1 > 2 then limit_exceeded (actionCount st + 1)
                 else allow_result None), st1)"
    "actionCount st1 = actionCount st + 1"
    "compiledPatterns st1 = Some (compilePatterns rx_only default_policy)"
    "length (lines_of (files st1 audit_file))
       = length (lines_of (files st audit_file)) + (if actionCount st + 1 > 2 then 1 else 0)"
    using echo_test_validate [OF assms q(1), of rt] by blast
  show ?thesis
    by (simp add: validateAndAudit_def st1 checkBudget_two q Let_def limit_exceeded_def
        allow_result_def writeAuditEntry_frame writeAuditEntry_quiet)
qed


lemma start_facts:
  "compiledPatterns (process_start fs) = None" "actionCount (process_start fs) = 0"
  "lines_of (files (process_start (\<lambda>p. None)) q) = []"
  by (simp_all add: process_start_def lines_of_def)

text \<open>
  C8.  Every call of \<^verbatim>\<open>checkBudget\<close> adds one to the action counter, whether the budget
  is enabled or not, and reports the count after the increment.  With the budget enabled
  and a limit of two actions, three calls of \<^verbatim>\<open>validate\<close> for the safe command
  \<^verbatim>\<open>echo test\<close> give allow, allow and a deny with source \<^verbatim>\<open>budget\<close>, as the validator's
  test expects.  Three requests through \<^verbatim>\<open>validateAndAudit\<close>, which is what the hook
  calls, give allow, deny, deny: \<^verbatim>\<open>validateAndAudit\<close> calls \<^verbatim>\<open>checkBudget\<close> a second
  time for the audit entry, so that each request counts as two actions and the second
  request is the third action.
\<close>

theorem C8_budget_counted_twice:
  "actionCount (snd (checkBudget rt policy cwd' cost st)) = actionCount st + 1
   \<and> BudgetState.action_count (fst (checkBudget rt policy cwd' cost st)) = actionCount st + 1
   \<and> (case validate (rt\<lparr>RegExp_test := js_RegExp_test\<rparr>) (validate_io quiet_io)
              (bash_input ''echo test'') budget_two_policy ''/w'' (process_start (\<lambda>p. None)) of
         (o1, s1) \<Rightarrow>
       case validate (rt\<lparr>RegExp_test := js_RegExp_test\<rparr>) (validate_io quiet_io)
              (bash_input ''echo test'') budget_two_policy ''/w'' s1 of
         (o2, s2) \<Rightarrow>
       case validate (rt\<lparr>RegExp_test := js_RegExp_test\<rparr>) (validate_io quiet_io)
              (bash_input ''echo test'') budget_two_policy ''/w'' s2 of
         (o3, s3) \<Rightarrow> [o1, o2, o3])
      = [Return \<lparr> allowed = True, reason = None, severity = None, pattern = None, source = None \<rparr>,
         Return \<lparr> allowed = True, reason = None, severity = None, pattern = None, source = None \<rparr>,
         Return \<lparr> allowed = False, reason = Some ''Action limit exceeded: 3/2'',
                  severity = Some High, pattern = None, source = Some SrcBudget \<rparr>]
   \<and> (case validateAndAudit (rt\<lparr>RegExp_test := js_RegExp_test\<rparr>) quiet_io
              (bash_input ''echo test'') budget_two_policy ''/w'' (process_start (\<lambda>p. None)) of
         (o1, s1) \<Rightarrow>
       case validateAndAudit (rt\<lparr>RegExp_test := js_RegExp_test\<rparr>) quiet_io
              (bash_input ''echo test'') budget_two_policy ''/w'' s1 of
         (o2, s2) \<Rightarrow>
       case validateAndAudit (rt\<lparr>RegExp_test := js_RegExp_test\<rparr>) quiet_io
              (bash_input ''echo test'') budget_two_policy ''/w'' s2 of
         (o3, s3) \<Rightarrow> [o1, o2, o3])
      = [Return \<lparr> allowed = True, reason = None, severity = None, pattern = None, source = None \<rparr>,
         Return \<lparr> allowed = False, reason = Some ''Action limit exceeded: 3/2'',
                  severity = Some High, pattern = None, source = Some SrcBudget \<rparr>,
         Return \<lparr> allowed = False, reason = Some ''Action limit exceeded: 5/2'',
                  severity = Some High, pattern = None, source = Some SrcBudget \<rparr>]"
proof -
  let ?rt = "rt\<lparr>RegExp_test := js_RegExp_test\<rparr>"
  let ?C = "Some (compilePatterns rx_only default_policy)"
  have q: "audit_io (validate_io quiet_io) = quiet_audit_io"
    by (simp add: quiet_io_def)
  obtain a1 where a1:
    "validate ?rt (validate_io quiet_io) (bash_input ''echo test'') budget_two_policy ''/w''
       (process_start (\<lambda>p. None)) = (Return (allow_result None), a1)"
    "actionCount a1 = 1" "compiledPatterns a1 = ?C"
    using echo_test_validate [OF _ q, of "process_start (\<lambda>p. None)" rt]
    by (auto simp: start_facts)
  obtain a2 where a2:
    "validate ?rt (validate_io quiet_io) (bash_input ''echo test'') budget_two_policy ''/w'' a1
       = (Return (allow_result None), a2)"
    "actionCount a2 = 2" "compiledPatterns a2 = ?C"
    using echo_test_validate [OF _ q, of a1 rt] a1 by auto
  obtain a3 where a3:
    "validate ?rt (validate_io quiet_io) (bash_input ''echo test'') budget_two_policy ''/w'' a2
       = (Return (limit_exceeded 3), a3)"
    using echo_test_validate [OF _ q, of a2 rt] a2 by auto
  obtain b1 where b1:
    "validateAndAudit ?rt quiet_io (bash_input ''echo test'') budget_two_policy ''/w''
       (process_start (\<lambda>p. None)) = (Return (allow_result None), b1)"
    "actionCount b1 = 2" "compiledPatterns b1 = ?C"
    using echo_test_validateAndAudit [of "process_start (\<lambda>p. None)" rt]
    by (auto simp: start_facts)
  obtain b2 where b2:
    "validateAndAudit ?rt quiet_io (bash_input ''echo test'') budget_two_policy ''/w'' b1
       = (Return (limit_exceeded 3), b2)"
    "actionCount b2 = 4" "compiledPatterns b2 = ?C"
    using echo_test_validateAndAudit [of b1 rt] b1 by auto
  obtain b3 where b3:
    "validateAndAudit ?rt quiet_io (bash_input ''echo test'') budget_two_policy ''/w'' b2
       = (Return (limit_exceeded 5), b3)"
    using echo_test_validateAndAudit [of b2 rt] b2 by auto
  show ?thesis
    by (simp add: checkBudget_counts a1 a2 a3 b1 b2 b3 allow_result_def limit_exceeded_def
        show_digits)
qed

text \<open>
  C9.  A request that the budget gate denies in enforce mode, without a kill, leaves two
  lines in the audit file: \<^verbatim>\<open>validate\<close> writes the entry before the kill check, and
  \<^verbatim>\<open>validateAndAudit\<close> writes one again.  Under the policy above the file is absent at
  the start, has one line after the first request, which is allowed, and three after the
  second, which is denied.
\<close>

theorem C9_budget_deny_written_twice:
  "(case validateAndAudit (rt\<lparr>RegExp_test := js_RegExp_test\<rparr>) quiet_io
            (bash_input ''echo test'') budget_two_policy ''/w'' (process_start (\<lambda>p. None)) of
      (o1, s1) \<Rightarrow>
    case validateAndAudit (rt\<lparr>RegExp_test := js_RegExp_test\<rparr>) quiet_io
            (bash_input ''echo test'') budget_two_policy ''/w'' s1 of
      (o2, s2) \<Rightarrow>
        (o2, length (lines_of (files (process_start (\<lambda>p. None)) ''/w/.guardian/audit.jsonl'')),
             length (lines_of (files s1 ''/w/.guardian/audit.jsonl'')),
             length (lines_of (files s2 ''/w/.guardian/audit.jsonl''))))
   = (Return \<lparr> allowed = False, reason = Some ''Action limit exceeded: 3/2'',
                severity = Some High, pattern = None, source = Some SrcBudget \<rparr>, 0, 1, 3)"
proof -
  let ?rt = "rt\<lparr>RegExp_test := js_RegExp_test\<rparr>"
  let ?C = "Some (compilePatterns rx_only default_policy)"
  obtain b1 where b1:
    "validateAndAudit ?rt quiet_io (bash_input ''echo test'') budget_two_policy ''/w''
       (process_start (\<lambda>p. None)) = (Return (allow_result None), b1)"
    "actionCount b1 = 2" "compiledPatterns b1 = ?C"
    "length (lines_of (files b1 audit_file)) = 1"
    using echo_test_validateAndAudit [of "process_start (\<lambda>p. None)" rt]
    by (auto simp: start_facts)
  obtain b2 where b2:
    "validateAndAudit ?rt quiet_io (bash_input ''echo test'') budget_two_policy ''/w'' b1
       = (Return (limit_exceeded 3), b2)"
    "length (lines_of (files b2 audit_file)) = 3"
    using echo_test_validateAndAudit [of b1 rt] b1 by auto
  show ?thesis
    by (simp add: b1 b2 start_facts limit_exceeded_def show_digits)
qed

subsection \<open>The hash chain of the audit file\<close>

lemma hash_roundtrip [simp]:
  "without_hash (with_hash e h) = e" "hash (with_hash e h) = h"
  by (simp_all add: without_hash_def with_hash_def AuditEntryWithoutHash.defs AuditEntry.defs)

lemma with_hash_fields [simp]:
  "tool (with_hash e h) = tool e" "seq (with_hash e h) = seq e"
  "AuditEntryWithoutHash.allowed (with_hash e h) = AuditEntryWithoutHash.allowed e"
  by (simp_all add: with_hash_def AuditEntryWithoutHash.defs AuditEntry.defs)

lemma entry_eq_iff:
  "(e1 = e2) = (without_hash e1 = without_hash e2 \<and> hash e1 = hash e2)" for e1 e2 :: AuditEntry
proof -
  have "with_hash (without_hash e) (hash e) = e" for e :: AuditEntry
    by (simp add: without_hash_def with_hash_def AuditEntryWithoutHash.defs AuditEntry.defs)
  then show ?thesis by metis
qed

lemma hash_chain_Cons:
  "hash_chain rt prev (e # es) =
     (hash e = computeHash rt prev (without_hash e) \<and> hash_chain rt (hash e) es)"
  by (simp add: computeHash_def)

lemma hash_chain_append:
  "hash_chain rt prev (es @ [e]) =
     (hash_chain rt prev es \<and> hash e = computeHash rt (last_hash prev es) (without_hash e))"
  by (induction es arbitrary: prev)
     (auto simp: last_hash_def hash_chain_Cons simp del: hash_chain.simps(2))

lemma hash_chain_nth:
  "hash_chain rt prev es \<Longrightarrow> i < length es \<Longrightarrow>
   hash (es ! i) = ''sha256:'' @ sha256_hex rt
      ((if i = 0 then prev else hash (es ! (i - 1))) @ JSON_stringify_entry rt (without_hash (es ! i)))"
proof (induction es arbitrary: prev i)
  case Nil
  then show ?case by simp
next
  case (Cons e es)
  show ?case
  proof (cases i)
    case 0
    then show ?thesis using Cons.prems by simp
  next
    case (Suc j)
    then show ?thesis
      using Cons.prems Cons.IH [of "hash e" j] by (cases j) auto
  qed
qed

lemma last_hash_take:
  "i < length es \<Longrightarrow> last_hash prev (take i es) = (if i = 0 then prev else hash (es ! (i - 1)))"
  by (cases i) (auto simp: last_hash_def last_conv_nth min_def)

lemma hash_chain_take: "hash_chain rt prev es \<Longrightarrow> hash_chain rt prev (take i es)"
proof (induction es arbitrary: prev i)
  case Nil
  then show ?case by simp
next
  case (Cons e es)
  then show ?case by (cases i) auto
qed

lemma verify_loop_valid:
  "hash_chain rt prev es \<Longrightarrow>
   verify_loop rt (map Entry es) i prev n = \<lparr> valid = True, entries = n, brokenAt = None \<rparr>"
  by (induction es arbitrary: prev i)
     (auto simp: hash_chain_Cons simp del: hash_chain.simps(2))

lemma verify_loop_broken:
  assumes "hash_chain rt prev xs"
    and "hash e' \<noteq> computeHash rt (last_hash prev xs) (without_hash e')"
  shows "verify_loop rt (map Entry xs @ Entry e' # rest) k prev n
         = \<lparr> valid = False, entries = n, brokenAt = Some (k + length xs + 1) \<rparr>"
  using assms
proof (induction xs arbitrary: prev k)
  case Nil
  then show ?case by (simp add: last_hash_def)
next
  case (Cons x xs)
  have "last_hash prev (x # xs) = last_hash (hash x) xs"
    by (simp add: last_hash_def)
  then show ?case
    using Cons.prems Cons.IH [of "hash x" "k + 1"]
    by (auto simp: hash_chain_Cons simp del: hash_chain.simps(2))
qed

lemma entries_of_map [simp]: "entries_of (map Entry es) = Some es"
  by (induction es) auto

lemma entries_of_Some: "entries_of ls = Some es \<Longrightarrow> ls = map Entry es"
proof (induction ls arbitrary: es)
  case Nil
  then show ?case by simp
next
  case (Cons l ls)
  then show ?case by (cases l) auto
qed

lemma chain_state_start:
  "fs p = None \<Longrightarrow> chain_state rt p (process_start fs) []"
  by (simp add: chain_state_def process_start_def lines_of_def)

lemma chain_state_restart:
  "chain_state rt p st es \<Longrightarrow> chain_state rt p (process_start (files st)) es"
  by (simp add: chain_state_def process_start_def)

lemma chain_state_write:
  assumes "chain_state rt p st es"
    and "AuditConfig.enabled (audit policy)" and "integrity (audit policy) = Sha256Chain"
    and "getAuditPath rt policy cwd' = p"
  shows "\<exists>es'. chain_state rt p (writeAuditEntry rt io input' result policy cwd' b st) es'
               \<and> files (writeAuditEntry rt io input' result policy cwd' b st) p \<noteq> None"
proof (cases "shouldRotate policy io p st")
  case True
  let ?e = "\<lparr> v = 1, ts = now io,
                 sid = (case session_id input' of None \<Rightarrow> ''unknown'' | Some s \<Rightarrow> s),
                 seq = 1, tool = tool_name input',
                 input = (if include_tool_input (audit policy) then Some (tool_input input') else None),
                 AuditEntryWithoutHash.allowed = allowed result,
                 AuditEntryWithoutHash.reason = reason result,
                 AuditEntryWithoutHash.severity = severity result,
                 policy_match = pattern result,
                 budget = b,
                 AuditEntryWithoutHash.cwd = cwd' \<rparr>"
  show ?thesis
    using True assms
    by (intro exI [of _ "[with_hash ?e (computeHash rt [] ?e)]"])
       (simp add: writeAuditEntry_def Let_def rotateAuditFile_def resume_from_file_def
          chain_state_def lines_of_def hash_chain_Cons del: hash_chain.simps(2))
next
  case False
  let ?prev = "last_hash [] es"
  let ?n = "(if sequenceNumber st = 0 then (if es = [] then 0 else seq (last es)) else sequenceNumber st) + 1"
  let ?e = "\<lparr> v = 1, ts = now io,
                 sid = (case session_id input' of None \<Rightarrow> ''unknown'' | Some s \<Rightarrow> s),
                 seq = ?n, tool = tool_name input',
                 input = (if include_tool_input (audit policy) then Some (tool_input input') else None),
                 AuditEntryWithoutHash.allowed = allowed result,
                 AuditEntryWithoutHash.reason = reason result,
                 AuditEntryWithoutHash.severity = severity result,
                 policy_match = pattern result,
                 budget = b,
                 AuditEntryWithoutHash.cwd = cwd' \<rparr>"
  have l: "es \<noteq> [] \<Longrightarrow> last (map Entry es) = Entry (last es)"
    by (simp add: last_map)
  show ?thesis
    using False assms l
    by (intro exI [of _ "es @ [with_hash ?e (computeHash rt ?prev ?e)]"])
       (auto simp: writeAuditEntry_def Let_def resume_from_file_def chain_state_def lines_of_def
          hash_chain_append last_hash_def split: option.splits)
qed

lemma chain_state_events:
  assumes "list_all (chained_write_to rt p) events" and "chain_state rt p st es"
  shows "\<exists>es'. chain_state rt p (run_events rt events st) es'"
  using assms
proof (induction events arbitrary: st es)
  case Nil
  then show ?case by (auto simp: run_events_def)
next
  case (Cons ev events)
  have "\<exists>es1. chain_state rt p (run_event rt st ev) es1"
  proof (cases ev)
    case (Write w)
    show ?thesis
    proof (cases "AuditConfig.enabled (audit (w_policy w))")
      case True
      then show ?thesis
        using Cons.prems Write chain_state_write [OF Cons.prems(2) True] by (auto split: if_splits)
    next
      case False
      then show ?thesis
        using Cons.prems Write by (auto simp: writeAuditEntry_def)
    qed
  next
    case Restart
    then show ?thesis using chain_state_restart [OF Cons.prems(2)] by auto
  qed
  then obtain es1 where "chain_state rt p (run_event rt st ev) es1" ..
  then show ?case
    using Cons.IH [of "run_event rt st ev" es1] Cons.prems(1) by (simp add: run_events_def)
qed

lemma verifyAuditChain_lines:
  "lines_of (files st p) = ls \<Longrightarrow>
   verifyAuditChain rt p st = (if ls = [] then \<lparr> valid = True, entries = 0, brokenAt = None \<rparr>
                               else verify_loop rt ls 0 [] (length ls))"
  by (auto simp: verifyAuditChain_def lines_of_def split: option.splits)

lemma sample_events_chained:
  "list_all (chained_write_to identity_digest_runtime audit_file) sample_events"
  by code_simp

lemma sample_events_tools:
  "map_option (map tool)
     (entries_of (lines_of (files (run_events identity_digest_runtime sample_events
                                     (process_start (\<lambda>p. None))) audit_file)))
   = Some [''Bash'', ''Bash'']"
  by code_simp

lemma identity_digest [simp]: "sha256_hex identity_digest_runtime s = s"
  by (simp add: identity_digest_runtime_def rx_only_def)

lemma without_hash_fields [simp]:
  "v (without_hash e) = v e" "ts (without_hash e) = ts e" "sid (without_hash e) = sid e"
  "seq (without_hash e) = seq e" "tool (without_hash e) = tool e"
  by (simp_all add: without_hash_def AuditEntryWithoutHash.truncate_def)

lemma tampered_tool_payload:
  "tool e = ''Bash'' \<Longrightarrow>
   JSON_stringify_entry rt (without_hash (e\<lparr>tool := ''TAMPERED''\<rparr>))
   \<noteq> JSON_stringify_entry rt (without_hash e)"
  by (simp add: JSON_stringify_entry_def JSON_quote_def JSON_escape_def)

text \<open>
  With \<^verbatim>\<open>integrity = "none"\<close> the entry that \<^verbatim>\<open>writeAuditEntry\<close> writes has the hash
  \<^verbatim>\<open>none\<close>, and \<^verbatim>\<open>verifyAuditChain\<close> reports the file it has just written as broken at
  its first entry.
\<close>

theorem C1_integrity_none_counterexample:
  "\<forall>rt. integrity (audit no_integrity_policy) = IntegrityNone
     \<and> (\<exists>e. files (writeAuditEntry rt quiet_audit_io (bash_input ''ls'') (allow_result None)
                      no_integrity_policy ''/w'' None (process_start (\<lambda>p. None))) audit_file
             = Some [Entry e]
           \<and> hash e = ''none'')
     \<and> verifyAuditChain rt audit_file
          (writeAuditEntry rt quiet_audit_io (bash_input ''ls'') (allow_result None)
             no_integrity_policy ''/w'' None (process_start (\<lambda>p. None)))
        = \<lparr> valid = False, entries = 1, brokenAt = Some 1 \<rparr>"
  by (simp add: writeAuditEntry_def no_integrity_policy_def default_policy_def getAuditPath_def
      path_eval process_start_def shouldRotate_def resume_from_file_def Let_def
      verifyAuditChain_def computeHash_def)

text \<open>
  C1.  Take any run of processes, each starting with the module variables reset, whose
  calls of \<^verbatim>\<open>writeAuditEntry\<close> with the audit enabled all have
  \<^verbatim>\<open>integrity = "sha256-chain"\<close> and all resolve to the one audit path \<open>p\<close>, a file that
  did not exist before the run (rotations of it included).  Then every line of the file is
  an entry; the hash of each entry is \<^verbatim>\<open>sha256:\<close> followed by the digest of the hash of
  the entry before it (the empty string for the first) and the serialization of the entry
  without its hash; \<^verbatim>\<open>verifyAuditChain\<close> returns valid with the number of entries; and
  when the file is altered such that the entries before entry \<open>i\<close> are as written and entry
  \<open>i\<close> differs from the written one, either in its hash alone or in its other fields
  alone with a payload of a different digest, \<^verbatim>\<open>verifyAuditChain\<close> returns invalid with
  \<^verbatim>\<open>brokenAt = i + 1\<close>, the one-based index of that earliest altered entry.
\<close>

theorem C1_hash_chain:
  assumes "list_all (chained_write_to rt p) events" and "fs p = None"
  shows "\<exists>es. lines_of (files (run_events rt events (process_start fs)) p) = map Entry es
     \<and> (\<forall>i<length es.
           hash (es ! i) = ''sha256:'' @ sha256_hex rt
              ((if i = 0 then [] else hash (es ! (i - 1)))
               @ JSON_stringify_entry rt (without_hash (es ! i))))
     \<and> verifyAuditChain rt p (run_events rt events (process_start fs))
         = \<lparr> valid = True, entries = length es, brokenAt = None \<rparr>
     \<and> (\<forall>ls i e'.
           i < length es \<and> i < length ls \<and> take i ls = map Entry (take i es)
           \<and> ls ! i = Entry e' \<and> e' \<noteq> es ! i
           \<and> (without_hash e' = without_hash (es ! i)
                \<or> (hash e' = hash (es ! i)
                    \<and> sha256_hex rt ((if i = 0 then [] else hash (es ! (i - 1)))
                                      @ JSON_stringify_entry rt (without_hash e'))
                       \<noteq> sha256_hex rt ((if i = 0 then [] else hash (es ! (i - 1)))
                                        @ JSON_stringify_entry rt (without_hash (es ! i)))))
           \<longrightarrow> verifyAuditChain rt p
                 ((run_events rt events (process_start fs))
                    \<lparr>files := (files (run_events rt events (process_start fs)))(p \<mapsto> ls)\<rparr>)
               = \<lparr> valid = False, entries = length ls, brokenAt = Some (i + 1) \<rparr>)"
proof -
  let ?st = "run_events rt events (process_start fs)"
  obtain es where cs: "chain_state rt p ?st es"
    using chain_state_events [OF assms(1) chain_state_start [of fs p rt, OF assms(2)]] by blast
  then have lines: "lines_of (files ?st p) = map Entry es" and chain: "hash_chain rt [] es"
    by (simp_all add: chain_state_def)
  have nth: "\<forall>i<length es.
           hash (es ! i) = ''sha256:'' @ sha256_hex rt
              ((if i = 0 then [] else hash (es ! (i - 1)))
               @ JSON_stringify_entry rt (without_hash (es ! i)))"
    using hash_chain_nth [OF chain] by simp
  have ok: "verifyAuditChain rt p ?st = \<lparr> valid = True, entries = length es, brokenAt = None \<rparr>"
    using verifyAuditChain_lines [OF lines, of rt] verify_loop_valid [OF chain, of 0 "length es"]
    by simp
  have tamper: "verifyAuditChain rt p (?st\<lparr>files := (files ?st)(p \<mapsto> ls)\<rparr>)
               = \<lparr> valid = False, entries = length ls, brokenAt = Some (i + 1) \<rparr>"
    if i: "i < length es" "i < length ls" and pre: "take i ls = map Entry (take i es)"
      and e': "ls ! i = Entry e'" "e' \<noteq> es ! i"
      and alt: "without_hash e' = without_hash (es ! i)
                \<or> (hash e' = hash (es ! i)
                    \<and> sha256_hex rt ((if i = 0 then [] else hash (es ! (i - 1)))
                                      @ JSON_stringify_entry rt (without_hash e'))
                       \<noteq> sha256_hex rt ((if i = 0 then [] else hash (es ! (i - 1)))
                                        @ JSON_stringify_entry rt (without_hash (es ! i))))"
    for ls i e'
  proof -
    let ?prev = "if i = 0 then [] else hash (es ! (i - 1))"
    have orig: "hash (es ! i) = computeHash rt ?prev (without_hash (es ! i))"
      using nth i(1) by (simp add: computeHash_def)
    have lh: "last_hash [] (take i es) = ?prev"
      by (rule last_hash_take [OF i(1)])
    have "hash e' \<noteq> computeHash rt ?prev (without_hash e')"
    proof (cases "without_hash e' = without_hash (es ! i)")
      case True
      then have "hash e' \<noteq> hash (es ! i)"
        using e'(2) by (simp add: entry_eq_iff)
      then show ?thesis
        using True orig by simp
    next
      case False
      then have "hash e' = hash (es ! i)"
        and "sha256_hex rt (?prev @ JSON_stringify_entry rt (without_hash e'))
             \<noteq> sha256_hex rt (?prev @ JSON_stringify_entry rt (without_hash (es ! i)))"
        using alt by blast+
      then show ?thesis
        unfolding orig computeHash_def by simp
    qed
    then have bad: "hash e' \<noteq> computeHash rt (last_hash [] (take i es)) (without_hash e')"
      unfolding lh .
    have ls: "ls = map Entry (take i es) @ Entry e' # drop (Suc i) ls"
      using id_take_nth_drop [OF i(2)] pre e'(1) by simp
    have len: "length (take i es) = i"
      using i(1) by simp
    have "verify_loop rt ls 0 [] (length ls)
          = \<lparr> valid = False, entries = length ls, brokenAt = Some (i + 1) \<rparr>"
      using verify_loop_broken [OF hash_chain_take [OF chain, of i] bad, of "drop (Suc i) ls" 0 "length ls"]
        ls len by simp
    moreover have "ls \<noteq> []"
      using i(2) by auto
    ultimately show ?thesis
      by (simp add: verifyAuditChain_def)
  qed
  show ?thesis
    using lines nth ok tamper by blast
qed

theorem C1_hash_chain_witness:
  "list_all (chained_write_to identity_digest_runtime audit_file) sample_events
   \<and> (\<exists>a b. lines_of (files (run_events identity_digest_runtime sample_events
                                  (process_start (\<lambda>p. None))) audit_file)
             = [Entry a, Entry b]
        \<and> hash a = ''sha256:'' @ JSON_stringify_entry identity_digest_runtime (without_hash a)
        \<and> hash b = ''sha256:'' @ hash a
                     @ JSON_stringify_entry identity_digest_runtime (without_hash b)
        \<and> verifyAuditChain identity_digest_runtime audit_file
             (run_events identity_digest_runtime sample_events (process_start (\<lambda>p. None)))
           = \<lparr> valid = True, entries = 2, brokenAt = None \<rparr>
        \<and> verifyAuditChain identity_digest_runtime audit_file
             ((run_events identity_digest_runtime sample_events (process_start (\<lambda>p. None)))
                \<lparr>files := (files (run_events identity_digest_runtime sample_events
                                     (process_start (\<lambda>p. None))))
                            (audit_file \<mapsto> [Entry a, Entry (b\<lparr>tool := ''TAMPERED''\<rparr>)])\<rparr>)
           = \<lparr> valid = False, entries = 2, brokenAt = Some 2 \<rparr>)"
proof -
  let ?rt = identity_digest_runtime
  let ?st = "run_events ?rt sample_events (process_start (\<lambda>p. None))"
  obtain es where lines: "lines_of (files ?st audit_file) = map Entry es"
    and nth: "\<forall>i<length es.
           hash (es ! i) = ''sha256:'' @ sha256_hex ?rt
              ((if i = 0 then [] else hash (es ! (i - 1)))
               @ JSON_stringify_entry ?rt (without_hash (es ! i)))"
    and ok: "verifyAuditChain ?rt audit_file ?st
         = \<lparr> valid = True, entries = length es, brokenAt = None \<rparr>"
    and tampered: "\<forall>ls i e'.
           i < length es \<and> i < length ls \<and> take i ls = map Entry (take i es)
           \<and> ls ! i = Entry e' \<and> e' \<noteq> es ! i
           \<and> (without_hash e' = without_hash (es ! i)
                \<or> (hash e' = hash (es ! i)
                    \<and> sha256_hex ?rt ((if i = 0 then [] else hash (es ! (i - 1)))
                                      @ JSON_stringify_entry ?rt (without_hash e'))
                       \<noteq> sha256_hex ?rt ((if i = 0 then [] else hash (es ! (i - 1)))
                                        @ JSON_stringify_entry ?rt (without_hash (es ! i)))))
           \<longrightarrow> verifyAuditChain ?rt audit_file (?st\<lparr>files := (files ?st)(audit_file \<mapsto> ls)\<rparr>)
               = \<lparr> valid = False, entries = length ls, brokenAt = Some (i + 1) \<rparr>"
    using C1_hash_chain [OF sample_events_chained, of "\<lambda>p. None"] by auto
  have "map tool es = [''Bash'', ''Bash'']"
    using sample_events_tools lines by simp
  then obtain a b where es: "es = [a, b]" and tool: "tool b = ''Bash''"
    by (auto simp: map_eq_Cons_conv)
  have ha: "hash a = ''sha256:'' @ JSON_stringify_entry ?rt (without_hash a)"
    using nth [rule_format, of 0] es by simp
  have hb: "hash b = ''sha256:'' @ hash a @ JSON_stringify_entry ?rt (without_hash b)"
    using nth [rule_format, of 1] es by simp
  have ne: "b\<lparr>tool := ''TAMPERED''\<rparr> \<noteq> b"
  proof
    assume "b\<lparr>tool := ''TAMPERED''\<rparr> = b"
    then have "tool (b\<lparr>tool := ''TAMPERED''\<rparr>) = tool b"
      by simp
    then show False
      using tool by simp
  qed
  have "verifyAuditChain ?rt audit_file
          (?st\<lparr>files := (files ?st)(audit_file \<mapsto> [Entry a, Entry (b\<lparr>tool := ''TAMPERED''\<rparr>)])\<rparr>)
        = \<lparr> valid = False, entries = 2, brokenAt = Some 2 \<rparr>"
    using tampered [rule_format, of 1 "[Entry a, Entry (b\<lparr>tool := ''TAMPERED''\<rparr>)]"
        "b\<lparr>tool := ''TAMPERED''\<rparr>"] es ne tampered_tool_payload [OF tool, of ?rt]
    by simp
  then show ?thesis
    using sample_events_chained lines ok ha hb es by simp
qed

end
